theory Spec2Isabelle
  imports Complex_Main "HOL-Library.AList"
begin

section \<open>Python values used by the invoice validator\<close>

text \<open>
  The validator (\<^verbatim>\<open>backend/validar_factura.py\<close>) receives a record loaded from JSON and
  works on it with Python's built-in strings and floats. This section models those
  built-ins, as far as the validator uses them.

  Text is a list of characters, each one a code point below 256: ASCII and the Latin-1
  supplement, which holds the accented letters of the validator's own messages and the
  no-break space. The built-ins below are Python's on every such text.
\<close>

subsection \<open>Characters and strings\<close>

definition is_digit :: "char \<Rightarrow> bool" where
  "is_digit c = (c \<in> set ''0123456789'')"

definition is_alpha :: "char \<Rightarrow> bool" where
  "is_alpha c = (c \<in> set ''abcdefghijklmnopqrstuvwxyzABCDEFGHIJKLMNOPQRSTUVWXYZ'')"

text \<open>\<^verbatim>\<open>str.isspace\<close>, which \<^verbatim>\<open>strip\<close> uses: tab, line feed, vertical tab, form feed,
  carriage return, the four separators 0x1C-0x1F, the blank, the next-line control 0x85
  and the no-break space 0xA0.\<close>

definition is_space :: "char \<Rightarrow> bool" where
  "is_space c = (c \<in> set [CHR 0x09, CHR 0x0A, CHR 0x0B, CHR 0x0C, CHR 0x0D,
                            CHR 0x1C, CHR 0x1D, CHR 0x1E, CHR 0x1F, CHR 0x20,
                            CHR 0x85, CHR 0xA0])"

text \<open>C's \<^verbatim>\<open>isspace\<close>, which \<^verbatim>\<open>float()\<close> uses to trim its argument.\<close>

definition is_cspace :: "char \<Rightarrow> bool" where
  "is_cspace c = (c \<in> set [CHR 0x09, CHR 0x0A, CHR 0x0B, CHR 0x0C, CHR 0x0D, CHR 0x20])"

definition trim :: "(char \<Rightarrow> bool) \<Rightarrow> string \<Rightarrow> string" where
  "trim p s = rev (dropWhile p (rev (dropWhile p s)))"

definition py_strip :: "string \<Rightarrow> string" where
  "py_strip s = trim is_space s"

text \<open>
  \<^verbatim>\<open>upper\<close> and \<^verbatim>\<open>lower\<close>. The upper case of a Latin-1 letter need not be a Latin-1
  letter: the sharp s (223) becomes the two letters \<^verbatim>\<open>SS\<close>, the micro sign (181) the
  Greek capital mu (924) and the y with diaeresis (255) its capital (376). So the result
  of a case mapping is a list of code points, and the validator's literals are compared
  with it as code points. The multiplication and division signs (215, 247) have no case.
\<close>

definition code_points :: "string \<Rightarrow> nat list" where
  "code_points s = map of_char s"

definition upper_cp :: "nat \<Rightarrow> nat list" where
  "upper_cp n =
     (if 97 \<le> n \<and> n \<le> 122 then [n - 32]
      else if n = 181 then [924]
      else if n = 223 then [83, 83]
      else if 224 \<le> n \<and> n \<le> 254 \<and> n \<noteq> 247 then [n - 32]
      else if n = 255 then [376]
      else [n])"

definition lower_cp :: "nat \<Rightarrow> nat" where
  "lower_cp n =
     (if (65 \<le> n \<and> n \<le> 90) \<or> (192 \<le> n \<and> n \<le> 222 \<and> n \<noteq> 215) then n + 32
      else n)"

definition py_upper :: "string \<Rightarrow> nat list" where
  "py_upper s = concat (map upper_cp (code_points s))"

definition py_lower :: "string \<Rightarrow> nat list" where
  "py_lower s = map lower_cp (code_points s)"

text \<open>\<^verbatim>\<open>s.replace(c, '')\<close> and \<^verbatim>\<open>s.replace(c, d)\<close> for single characters.\<close>

definition remove_char :: "char \<Rightarrow> string \<Rightarrow> string" where
  "remove_char c s = filter (\<lambda>x. x \<noteq> c) s"

definition replace_char :: "char \<Rightarrow> char \<Rightarrow> string \<Rightarrow> string" where
  "replace_char c d s = map (\<lambda>x. if x = c then d else x) s"

text \<open>\<^verbatim>\<open>s.rfind(c)\<close>: the index of the last occurrence, or -1.\<close>

definition rfind :: "char \<Rightarrow> string \<Rightarrow> int" where
  "rfind c s = int (length (dropWhile (\<lambda>x. x \<noteq> c) (rev s))) - 1"

text \<open>\<^verbatim>\<open>s.split(c)\<close>: the pieces between the occurrences of the separator.\<close>

fun py_split :: "char \<Rightarrow> string \<Rightarrow> string list" where
  "py_split c [] = [[]]"
| "py_split c (x # xs) =
     (if x = c then [] # py_split c xs
      else (case py_split c xs of p # ps \<Rightarrow> (x # p) # ps | [] \<Rightarrow> [[x]]))"

text \<open>The value of a digit is its place in the row of digits.\<close>

definition digit_val :: "char \<Rightarrow> nat" where
  "digit_val c = (if is_digit c then length (takeWhile (\<lambda>d. d \<noteq> c) ''0123456789'') else 0)"

definition digits_val :: "string \<Rightarrow> nat" where
  "digits_val ds = foldl (\<lambda>n c. 10 * n + digit_val c) 0 ds"

subsection \<open>Floats\<close>

text \<open>
  A Python float is an IEEE 754 binary64 number. A finite one is modelled by the rational
  it denotes; every operation computes exactly and then rounds to the nearest binary64
  number, ties to even (\<open>to_double\<close>). The two zeros are not told apart.
\<close>

datatype pyfloat = Fin rat | PInf | NInf | NaN

fun blen :: "nat \<Rightarrow> nat" where
  "blen n = (if n = 0 then 0 else Suc (blen (n div 2)))"

declare blen.simps [simp del]

definition pow2 :: "int \<Rightarrow> rat" where
  "pow2 e = (if 0 \<le> e then 2 ^ nat e else 1 / 2 ^ nat (- e))"

text \<open>Rounding a rational to the nearest integer, ties to the even one.\<close>

definition rhe_at :: "rat \<Rightarrow> int \<Rightarrow> int" where
  "rhe_at x f = (if x - of_int f < 1 / 2 then f
                 else if 1 / 2 < x - of_int f then f + 1
                 else if even f then f else f + 1)"

definition rhe :: "rat \<Rightarrow> int" where
  "rhe x = rhe_at x \<lfloor>x\<rfloor>"

text \<open>For \<open>0 < x\<close>, the exponent \<open>e\<close> with \<open>2 ^ e \<le> x < 2 ^ (e + 1)\<close>.\<close>

definition ilog2 :: "rat \<Rightarrow> int" where
  "ilog2 x = (if 1 \<le> x then int (blen (nat \<lfloor>x\<rfloor>)) - 1
              else - int (blen (nat (\<lceil>1 / x\<rceil> - 1))))"

text \<open>The exponent of the last mantissa bit: 52 below the leading bit, and never below
  that of the subnormal numbers.\<close>

definition ulp_exp :: "rat \<Rightarrow> int" where
  "ulp_exp a = max (ilog2 a - 52) (- 1074)"

definition round_to :: "int \<Rightarrow> rat \<Rightarrow> rat" where
  "round_to k a = of_int (rhe (a / pow2 k)) * pow2 k"

definition overflow :: "bool \<Rightarrow> rat \<Rightarrow> pyfloat" where
  "overflow pos r = (if pow2 1024 \<le> r then (if pos then PInf else NInf)
                     else Fin (if pos then r else - r))"

definition to_double :: "rat \<Rightarrow> pyfloat" where
  "to_double x = (if x = 0 then Fin 0
                  else overflow (0 < x) (round_to (ulp_exp \<bar>x\<bar>) \<bar>x\<bar>))"

fun fneg :: "pyfloat \<Rightarrow> pyfloat" where
  "fneg (Fin a) = Fin (- a)"
| "fneg PInf = NInf"
| "fneg NInf = PInf"
| "fneg NaN = NaN"

fun fadd :: "pyfloat \<Rightarrow> pyfloat \<Rightarrow> pyfloat" where
  "fadd (Fin a) (Fin b) = to_double (a + b)"
| "fadd NaN y = NaN"
| "fadd x NaN = NaN"
| "fadd PInf NInf = NaN"
| "fadd NInf PInf = NaN"
| "fadd PInf y = PInf"
| "fadd NInf y = NInf"
| "fadd (Fin a) y = y"

definition fsub :: "pyfloat \<Rightarrow> pyfloat \<Rightarrow> pyfloat" where
  "fsub x y = fadd x (fneg y)"

text \<open>The sign of an infinite product; zero times infinity is not a number.\<close>

definition inf_times :: "bool \<Rightarrow> rat \<Rightarrow> pyfloat" where
  "inf_times pos b = (if b = 0 then NaN else if (0 < b) = pos then PInf else NInf)"

fun fmul :: "pyfloat \<Rightarrow> pyfloat \<Rightarrow> pyfloat" where
  "fmul (Fin a) (Fin b) = to_double (a * b)"
| "fmul NaN y = NaN"
| "fmul x NaN = NaN"
| "fmul PInf (Fin b) = inf_times True b"
| "fmul NInf (Fin b) = inf_times False b"
| "fmul (Fin a) PInf = inf_times True a"
| "fmul (Fin a) NInf = inf_times False a"
| "fmul PInf PInf = PInf"
| "fmul NInf NInf = PInf"
| "fmul PInf NInf = NInf"
| "fmul NInf PInf = NInf"

fun fabs :: "pyfloat \<Rightarrow> pyfloat" where
  "fabs (Fin a) = Fin \<bar>a\<bar>"
| "fabs PInf = PInf"
| "fabs NInf = PInf"
| "fabs NaN = NaN"

text \<open>\<open>x > y\<close>; every comparison with a NaN is false.\<close>

fun fgt :: "pyfloat \<Rightarrow> pyfloat \<Rightarrow> bool" where
  "fgt (Fin a) (Fin b) = (b < a)"
| "fgt NaN y = False"
| "fgt x NaN = False"
| "fgt PInf PInf = False"
| "fgt PInf y = True"
| "fgt NInf y = False"
| "fgt (Fin a) PInf = False"
| "fgt (Fin a) NInf = True"

text \<open>
  \<^verbatim>\<open>round(x, 2)\<close>: the exact value of \<open>x\<close> is rounded to two decimals, ties to even,
  and the decimal is converted back to a float. Infinities and NaN round to themselves.
\<close>

fun fround2 :: "pyfloat \<Rightarrow> pyfloat" where
  "fround2 (Fin a) = to_double (of_int (rhe (a * 100)) / 100)"
| "fround2 x = x"

subsection \<open>Text to float\<close>

text \<open>
  \<^verbatim>\<open>float(s)\<close> for a string: every whitespace character that is not ASCII (0x85 and
  0xA0) is first taken as a blank; an underscore may stand between two digits only; C
  whitespace around the number is dropped; then an optional sign and either \<^verbatim>\<open>inf\<close>,
  \<^verbatim>\<open>infinity\<close>, \<^verbatim>\<open>nan\<close> (in any case) or a decimal number with an optional
  exponent. The decimal is rounded correctly. Any other character, the separators
  0x1C-0x1F among them, makes the text unreadable. \<open>None\<close> stands for \<^verbatim>\<open>ValueError\<close>.
\<close>

definition float_blank :: "char \<Rightarrow> char" where
  "float_blank c = (if c = CHR 0x85 \<or> c = CHR 0xA0 then CHR 0x20 else c)"

fun underscores_ok :: "char \<Rightarrow> string \<Rightarrow> bool" where
  "underscores_ok prev [] = (prev \<noteq> CHR ''_'')"
| "underscores_ok prev (c # cs) =
     (if c = CHR ''_'' then is_digit prev \<and> underscores_ok c cs
      else if prev = CHR ''_'' then is_digit c \<and> underscores_ok c cs
      else underscores_ok c cs)"

definition digits :: "string \<Rightarrow> bool" where
  "digits s = (s \<noteq> [] \<and> list_all is_digit s)"

definition exponent_of :: "string \<Rightarrow> int option" where
  "exponent_of r =
     (if r = [] then Some 0
      else if hd r = CHR ''e'' \<or> hd r = CHR ''E'' then
        (if tl r \<noteq> [] \<and> hd (tl r) = CHR ''-'' then
           (if digits (tl (tl r)) then Some (- int (digits_val (tl (tl r)))) else None)
         else if tl r \<noteq> [] \<and> hd (tl r) = CHR ''+'' then
           (if digits (tl (tl r)) then Some (int (digits_val (tl (tl r)))) else None)
         else if digits (tl r) then Some (int (digits_val (tl r))) else None)
      else None)"

definition scale10 :: "nat \<Rightarrow> int \<Rightarrow> rat" where
  "scale10 n e = (if 0 \<le> e then of_nat n * 10 ^ nat e else of_nat n / 10 ^ nat (- e))"

definition mantissa_exp :: "string \<Rightarrow> string \<Rightarrow> string \<Rightarrow> rat option" where
  "mantissa_exp ip fp r =
     (if ip = [] \<and> fp = [] then None
      else map_option (\<lambda>e. scale10 (digits_val (ip @ fp)) (e - int (length fp))) (exponent_of r))"

definition after_int :: "string \<Rightarrow> string \<Rightarrow> rat option" where
  "after_int ip r =
     (if r \<noteq> [] \<and> hd r = CHR ''.''
      then mantissa_exp ip (takeWhile is_digit (tl r)) (dropWhile is_digit (tl r))
      else mantissa_exp ip [] r)"

definition decimal_of :: "string \<Rightarrow> rat option" where
  "decimal_of s = after_int (takeWhile is_digit s) (dropWhile is_digit s)"

definition unsigned_float :: "string \<Rightarrow> pyfloat option" where
  "unsigned_float s =
     (if py_lower s = code_points ''inf'' \<or> py_lower s = code_points ''infinity'' then Some PInf
      else if py_lower s = code_points ''nan'' then Some NaN
      else map_option to_double (decimal_of s))"

definition signed_float :: "string \<Rightarrow> pyfloat option" where
  "signed_float t =
     (if t \<noteq> [] \<and> hd t = CHR ''-'' then map_option fneg (unsigned_float (tl t))
      else if t \<noteq> [] \<and> hd t = CHR ''+'' then unsigned_float (tl t)
      else unsigned_float t)"

definition py_float :: "string \<Rightarrow> pyfloat option" where
  "py_float s =
     (if underscores_ok (CHR 0x00) (map float_blank s)
      then signed_float (trim is_cspace (remove_char (CHR ''_'') (map float_blank s)))
      else None)"

subsection \<open>Values loaded from JSON\<close>

text \<open>
  \<^verbatim>\<open>json.load\<close> gives \<^verbatim>\<open>None\<close>, booleans, numbers, strings, lists and dicts with
  string keys. A dict is an association list read through \<open>map_of\<close>: the first binding
  of a key is the dict's entry. The validator only ever takes \<^verbatim>\<open>str()\<close> and the
  truth value of a number, so a number is kept as the text \<^verbatim>\<open>str()\<close> returns for it.
\<close>

datatype json =
    JNull
  | JBool bool
  | JNum string
  | JStr string
  | JArr "json list"
  | JObj "(string \<times> json) list"

text \<open>\<^verbatim>\<open>d.get(k)\<close>: a missing key gives \<^verbatim>\<open>None\<close>.\<close>

definition dget :: "(string \<times> json) list \<Rightarrow> string \<Rightarrow> json" where
  "dget d k = (case map_of d k of Some v \<Rightarrow> v | None \<Rightarrow> JNull)"

text \<open>The truth value of a Python object, and \<^verbatim>\<open>a or b\<close>.\<close>

fun truthy :: "json \<Rightarrow> bool" where
  "truthy JNull = False"
| "truthy (JBool b) = b"
| "truthy (JNum t) = (t \<notin> set [''0'', ''0.0'', ''-0.0''])"
| "truthy (JStr s) = (s \<noteq> [])"
| "truthy (JArr xs) = (xs \<noteq> [])"
| "truthy (JObj kvs) = (kvs \<noteq> [])"

definition py_or :: "json \<Rightarrow> json \<Rightarrow> json" where
  "py_or a b = (if truthy a then a else b)"

text \<open>\<^verbatim>\<open>repr\<close> of a string: quoted, with the quote, the backslash and the characters
  that do not print escaped.\<close>

definition hex2 :: "char \<Rightarrow> string" where
  "hex2 c = [''0123456789abcdef'' ! (of_char c div 16), ''0123456789abcdef'' ! (of_char c mod 16)]"

definition printable :: "char \<Rightarrow> bool" where
  "printable c = ((32 \<le> (of_char c :: nat) \<and> (of_char c :: nat) < 127)
                  \<or> (161 \<le> (of_char c :: nat) \<and> (of_char c :: nat) \<noteq> 173))"

definition escape_char :: "char \<Rightarrow> char \<Rightarrow> string" where
  "escape_char q c =
     (if c = q \<or> c = CHR 0x5C then [CHR 0x5C, c]
      else if c = CHR 0x09 then [CHR 0x5C, CHR ''t'']
      else if c = CHR 0x0A then [CHR 0x5C, CHR ''n'']
      else if c = CHR 0x0D then [CHR 0x5C, CHR ''r'']
      else if printable c then [c]
      else [CHR 0x5C, CHR ''x''] @ hex2 c)"

definition quote_for :: "string \<Rightarrow> char" where
  "quote_for s = (if CHR 0x27 \<in> set s \<and> CHR 0x22 \<notin> set s then CHR 0x22 else CHR 0x27)"

definition repr_str :: "string \<Rightarrow> string" where
  "repr_str s = [quote_for s] @ concat (map (escape_char (quote_for s)) s) @ [quote_for s]"

fun join :: "string \<Rightarrow> string list \<Rightarrow> string" where
  "join sep [] = []"
| "join sep [x] = x"
| "join sep (x # y # ys) = x @ sep @ join sep (y # ys)"

fun py_repr :: "json \<Rightarrow> string" where
  "py_repr JNull = ''None''"
| "py_repr (JBool b) = (if b then ''True'' else ''False'')"
| "py_repr (JNum t) = t"
| "py_repr (JStr s) = repr_str s"
| "py_repr (JArr xs) = ''['' @ join '', '' (map py_repr xs) @ '']''"
| "py_repr (JObj kvs) =
     ''{'' @ join '', '' (map (\<lambda>kv. repr_str (fst kv) @ '': '' @ snd kv)
                            (AList.clearjunk (map (\<lambda>kv. (fst kv, py_repr (snd kv))) kvs))) @ ''}''"

text \<open>\<^verbatim>\<open>str(v)\<close>: a string is itself, everything else prints as its \<^verbatim>\<open>repr\<close>.\<close>

definition py_str :: "json \<Rightarrow> string" where
  "py_str v = (case v of JStr s \<Rightarrow> s | _ \<Rightarrow> py_repr v)"

text \<open>What the validator can raise.\<close>

datatype pyerr = AttributeError | TypeError | ValueError | OverflowError

section \<open>The numeric normalizer: \<^verbatim>\<open>parse_numeric\<close>\<close>

text \<open>The pattern \<^verbatim>\<open>-?\d+\<close>, matched against the whole string.\<close>

definition int_literal :: "string \<Rightarrow> bool" where
  "int_literal s = (if s \<noteq> [] \<and> hd s = CHR ''-'' then digits (tl s) else digits s)"

text \<open>
  The body of \<^verbatim>\<open>parse_numeric\<close> after the argument has been turned into text and
  trimmed. Every \<^verbatim>\<open>float()\<close> call of the source sits in a \<^verbatim>\<open>try\<close> whose handler
  returns \<^verbatim>\<open>None\<close>, which is \<open>py_float\<close>'s \<open>None\<close>.
\<close>

definition comma_only :: "string \<Rightarrow> pyfloat option" where
  "comma_only s =
     (if length (py_split (CHR '','') s) = 2 then
        (if length (py_split (CHR '','') s ! 1) \<le> 2
         then py_float (replace_char (CHR '','') (CHR ''.'') s)
         else py_float (remove_char (CHR '','') s))
      else py_float (remove_char (CHR '','') s))"

definition both_separators :: "string \<Rightarrow> pyfloat option" where
  "both_separators s =
     (if rfind (CHR ''.'') s < rfind (CHR '','') s
      then py_float (replace_char (CHR '','') (CHR ''.'') (remove_char (CHR ''.'') s))
      else py_float (remove_char (CHR '','') s))"

definition parse_text :: "string \<Rightarrow> pyfloat option" where
  "parse_text s =
     (if s = [] then None
      else if 0 < count_list s (CHR '','') \<and> 0 < count_list s (CHR ''.'') then both_separators s
      else if 0 < count_list s (CHR '','') \<and> count_list s (CHR ''.'') = 0 then comma_only s
      else if 0 < count_list s (CHR ''.'') \<and> count_list s (CHR '','') = 0 then py_float s
      else if int_literal s then py_float s
      else None)"

definition parse_numeric :: "json \<Rightarrow> pyfloat option" where
  "parse_numeric num_str = (if num_str = JNull then None else parse_text (py_strip (py_str num_str)))"

section \<open>The date recognizer: \<^verbatim>\<open>es_fecha_valida\<close>\<close>

text \<open>
  \<^verbatim>\<open>datetime.strptime\<close> turns a format into a regular expression, matches it at the
  start of the text, wants the match to end where the text ends, and then builds the
  date. \<open>directive\<close> lists, for one directive, the ways its alternatives match a prefix
  of the text, in the order the regular expression tries them:
  \<^verbatim>\<open>%d\<close> is \<^verbatim>\<open>3[0-1]|[1-2]\d|0[1-9]|[1-9]| [1-9]\<close>, \<^verbatim>\<open>%m\<close> is
  \<^verbatim>\<open>1[0-2]|0[1-9]|[1-9]\<close> and \<^verbatim>\<open>%Y\<close> is \<^verbatim>\<open>\d\d\d\d\<close>.
\<close>

definition two_chars :: "string \<Rightarrow> string \<Rightarrow> string \<Rightarrow> (nat \<times> string) list" where
  "two_chars as bs s =
     (if 2 \<le> length s \<and> hd s \<in> set as \<and> hd (tl s) \<in> set bs
      then [(10 * digit_val (hd s) + digit_val (hd (tl s)), tl (tl s))] else [])"

definition one_char :: "string \<Rightarrow> string \<Rightarrow> (nat \<times> string) list" where
  "one_char as s = (if s \<noteq> [] \<and> hd s \<in> set as then [(digit_val (hd s), tl s)] else [])"

definition four_digits :: "string \<Rightarrow> (nat \<times> string) list" where
  "four_digits s =
     (if 4 \<le> length s \<and> list_all is_digit (take 4 s) then [(digits_val (take 4 s), drop 4 s)]
      else [])"

definition directive :: "char \<Rightarrow> string \<Rightarrow> (nat \<times> string) list" where
  "directive c s =
     (if c = CHR ''d'' then
        two_chars ''3'' ''01'' s @ two_chars ''12'' ''0123456789'' s @ two_chars ''0'' ''123456789'' s
        @ one_char ''123456789'' s @ two_chars '' '' ''123456789'' s
      else if c = CHR ''m'' then
        two_chars ''1'' ''012'' s @ two_chars ''0'' ''123456789'' s @ one_char ''123456789'' s
      else if c = CHR ''Y'' then four_digits s
      else [])"

record fecha =
  anno :: nat
  mes :: nat
  dia :: nat

definition set_field :: "char \<Rightarrow> nat \<Rightarrow> fecha \<Rightarrow> fecha" where
  "set_field c v f =
     (if c = CHR ''d'' then f\<lparr>dia := v\<rparr> else if c = CHR ''m'' then f\<lparr>mes := v\<rparr> else f\<lparr>anno := v\<rparr>)"

text \<open>All matches of a format at the start of the text, first choice first.\<close>

fun matches :: "string \<Rightarrow> string \<Rightarrow> fecha \<Rightarrow> (fecha \<times> string) list" where
  "matches [] s f = [(f, s)]"
| "matches [c] s f = (if c \<noteq> CHR ''%'' \<and> s \<noteq> [] \<and> hd s = c then [(f, tl s)] else [])"
| "matches (c # d # fmt) s f =
     (if c = CHR ''%'' then concat (map (\<lambda>vr. matches fmt (snd vr) (set_field d (fst vr) f)) (directive d s))
      else if s \<noteq> [] \<and> hd s = c then matches (d # fmt) (tl s) f
      else [])"

definition leap :: "nat \<Rightarrow> bool" where
  "leap y = (y mod 4 = 0 \<and> (y mod 100 \<noteq> 0 \<or> y mod 400 = 0))"

definition days_in_month :: "nat \<Rightarrow> nat \<Rightarrow> nat" where
  "days_in_month y m =
     (if m = 2 then (if leap y then 29 else 28)
      else if m \<in> set [4, 6, 9, 11] then 30 else 31)"

definition valid_date :: "fecha \<Rightarrow> bool" where
  "valid_date f = (1 \<le> anno f \<and> 1 \<le> mes f \<and> mes f \<le> 12 \<and> 1 \<le> dia f
                   \<and> dia f \<le> days_in_month (anno f) (mes f))"

text \<open>Whether \<^verbatim>\<open>datetime.strptime(s, fmt)\<close> returns rather than raises.\<close>

definition strptime_ok :: "string \<Rightarrow> string \<Rightarrow> bool" where
  "strptime_ok s fmt =
     (case matches fmt s \<lparr>anno = 1900, mes = 1, dia = 1\<rparr> of
        [] \<Rightarrow> False
      | m # ms \<Rightarrow> snd m = [] \<and> valid_date (fst m))"

definition formatos :: "string list" where
  "formatos = [''%d/%m/%Y'', ''%m/%d/%Y'', ''%Y-%m-%d'', ''%d-%m-%Y'', ''%m-%d-%Y'']"

text \<open>\<^verbatim>\<open>es_fecha_valida\<close> calls \<^verbatim>\<open>fecha_str.strip()\<close> on anything that is not
  \<^verbatim>\<open>None\<close>: a value without that method raises \<^verbatim>\<open>AttributeError\<close>.\<close>

definition es_fecha_valida :: "json \<Rightarrow> pyerr + bool" where
  "es_fecha_valida fecha_str =
     (case fecha_str of
        JNull \<Rightarrow> Inr False
      | JStr s \<Rightarrow> Inr (py_strip s \<noteq> [] \<and> list_ex (strptime_ok (py_strip s)) formatos)
      | _ \<Rightarrow> Inl AttributeError)"

section \<open>Error reports\<close>

text \<open>
  An error is the dict \<^verbatim>\<open>{"campo", "motivo", "sugerencia"}\<close>. Its texts are f-strings;
  the model keeps each text in pieces: the literal parts, and the interpolated values as
  values (a JSON value, the item number, a float printed with two decimals, a float printed
  by \<^verbatim>\<open>str\<close>), not yet printed.
\<close>

datatype frag = Txt string | Val json | Idx nat | Fix2 pyfloat | Flt pyfloat

record verror =
  campo :: "frag list"
  motivo :: "frag list"
  sugerencia :: "frag list"

abbreviation aacute :: string where "aacute \<equiv> [CHR 0xE1]"
abbreviation eacute :: string where "eacute \<equiv> [CHR 0xE9]"
abbreviation iacute :: string where "iacute \<equiv> [CHR 0xED]"
abbreviation oacute :: string where "oacute \<equiv> [CHR 0xF3]"
abbreviation uacute :: string where "uacute \<equiv> [CHR 0xFA]"
abbreviation Iacute :: string where "Iacute \<equiv> [CHR 0xCD]"
abbreviation por :: string where "por \<equiv> [CHR 0xD7]"
abbreviation apos :: string where "apos \<equiv> [CHR 0x27]"
abbreviation nbsp :: string where "nbsp \<equiv> [CHR 0xA0]"

text \<open>\<^verbatim>\<open>esta_vacio\<close>, the same in the header and in the item rule set.\<close>

definition esta_vacio :: "json \<Rightarrow> bool" where
  "esta_vacio valor =
     (case valor of
        JNull \<Rightarrow> True
      | JStr s \<Rightarrow> py_strip s = []
                 \<or> py_lower (py_strip s) \<in> set (map code_points [''n/a'', ''na'', ''none''])
      | _ \<Rightarrow> False)"

section \<open>The header rule set: \<^verbatim>\<open>validar_campos_principales\<close>\<close>

text \<open>One definition for each \<^verbatim>\<open>if\<close> block of the source, in the source's order.\<close>

definition chk_exp_nombre :: "json \<Rightarrow> verror list" where
  "chk_exp_nombre exp_nombre =
     (if esta_vacio exp_nombre then
        [\<lparr>campo = [Txt ''Exportador - Nombre''],
          motivo = [Txt (''No se proporcion'' @ oacute @ '' el nombre o raz'' @ oacute
                      @ ''n social del exportador.'')],
          sugerencia = [Txt (''Incluya el nombre completo o la raz'' @ oacute
                          @ ''n social del exportador.'')]\<rparr>]
      else [])"

definition chk_exp_dir :: "json \<Rightarrow> verror list" where
  "chk_exp_dir exp_dir =
     (if esta_vacio exp_dir then
        [\<lparr>campo = [Txt (''Exportador - Direcci'' @ oacute @ ''n'')],
          motivo = [Txt (''No se proporcion'' @ oacute @ '' la direcci'' @ oacute
                      @ ''n del exportador.'')],
          sugerencia = [Txt (''Incluya la direcci'' @ oacute @ ''n (ciudad, pa'' @ iacute
                          @ ''s) completa del exportador.'')]\<rparr>]
      else [])"

definition chk_exp_id :: "json \<Rightarrow> verror list" where
  "chk_exp_id exp_id =
     (if esta_vacio exp_id then
        [\<lparr>campo = [Txt ''Exportador - NIT/ID''],
          motivo = [Txt (''No se proporcion'' @ oacute @ '' la identificaci'' @ oacute
                      @ ''n fiscal (NIT o equivalente) del exportador.'')],
          sugerencia = [Txt (''Incluya el NIT del exportador o su n'' @ uacute
                          @ ''mero de identificaci'' @ oacute @ ''n fiscal extranjero.'')]\<rparr>]
      else [])"

definition chk_imp_nombre :: "json \<Rightarrow> verror list" where
  "chk_imp_nombre imp_nombre =
     (if esta_vacio imp_nombre then
        [\<lparr>campo = [Txt ''Importador - Nombre''],
          motivo = [Txt (''No se proporcion'' @ oacute @ '' el nombre o raz'' @ oacute
                      @ ''n social del importador.'')],
          sugerencia = [Txt (''Incluya el nombre completo o la raz'' @ oacute
                          @ ''n social del importador.'')]\<rparr>]
      else [])"

definition chk_imp_dir :: "json \<Rightarrow> verror list" where
  "chk_imp_dir imp_dir =
     (if esta_vacio imp_dir then
        [\<lparr>campo = [Txt (''Importador - Direcci'' @ oacute @ ''n'')],
          motivo = [Txt (''No se proporcion'' @ oacute @ '' la direcci'' @ oacute
                      @ ''n del importador.'')],
          sugerencia = [Txt (''Incluya la direcci'' @ oacute @ ''n (ciudad, pa'' @ iacute
                          @ ''s) completa del importador.'')]\<rparr>]
      else [])"

definition chk_imp_id :: "json \<Rightarrow> verror list" where
  "chk_imp_id imp_id =
     (if esta_vacio imp_id then
        [\<lparr>campo = [Txt ''Importador - NIT/ID''],
          motivo = [Txt (''No se proporcion'' @ oacute @ '' la identificaci'' @ oacute
                      @ ''n fiscal (NIT o equivalente) del importador.'')],
          sugerencia = [Txt (''Incluya el NIT del importador (si es en Colombia) o su ''
                          @ ''identificaci'' @ oacute @ ''n fiscal en el exterior.'')]\<rparr>]
      else [])"

definition chk_num_fact :: "json \<Rightarrow> verror list" where
  "chk_num_fact num_fact =
     (if esta_vacio num_fact then
        [\<lparr>campo = [Txt (''N'' @ uacute @ ''mero de Factura'')],
          motivo = [Txt (''No se proporcion'' @ oacute @ '' el n'' @ uacute
                      @ ''mero de la factura comercial.'')],
          sugerencia = [Txt (''Incluya el n'' @ uacute @ ''mero o c'' @ oacute
                          @ ''digo identificador de la factura.'')]\<rparr>]
      else [])"

text \<open>The date is the one check that can raise: \<^verbatim>\<open>es_fecha_valida\<close> is called on
  whatever is not empty.\<close>

definition chk_fecha_fact :: "json \<Rightarrow> pyerr + verror list" where
  "chk_fecha_fact fecha_fact =
     (if esta_vacio fecha_fact then
        Inr [\<lparr>campo = [Txt ''Fecha de Factura''],
              motivo = [Txt (''No se proporcion'' @ oacute @ '' la fecha de expedici''
                          @ oacute @ ''n de la factura.'')],
              sugerencia = [Txt (''Incluya la fecha de emisi'' @ oacute
                              @ ''n de la factura en formato DD/MM/AAAA.'')]\<rparr>]
      else
        (case es_fecha_valida fecha_fact of
           Inl e \<Rightarrow> Inl e
         | Inr ok \<Rightarrow>
             Inr (if \<not> ok then
               [\<lparr>campo = [Txt ''Fecha de Factura''],
                 motivo = [Txt (''El formato de la fecha '' @ apos), Val fecha_fact,
                           Txt (apos @ '' no es v'' @ aacute @ ''lido.'')],
                 sugerencia = [Txt (''Use un formato de fecha v'' @ aacute
                                 @ ''lido, por ejemplo DD/MM/AAAA.'')]\<rparr>]
             else [])))"

definition incoterms_validos :: "string list" where
  "incoterms_validos = [''EXW'', ''FCA'', ''FAS'', ''FOB'', ''CFR'', ''CIF'', ''CPT'', ''CIP'',
                        ''DAP'', ''DPU'', ''DDP'', ''DAT'']"

definition chk_incoterm :: "json \<Rightarrow> verror list" where
  "chk_incoterm incoterm =
     (if esta_vacio incoterm then
        [\<lparr>campo = [Txt ''Incoterm''],
          motivo = [Txt (''No se especific'' @ oacute @ '' el Incoterm (t'' @ eacute
                      @ ''rmino de entrega) de la transacci'' @ oacute @ ''n.'')],
          sugerencia = [Txt (''Incluya el Incoterm acordado (por ejemplo FOB, CIF, ''
                          @ ''CIP), junto con el lugar pactado.'')]\<rparr>]
      else if py_upper (py_strip (py_str incoterm)) \<notin> set (map code_points incoterms_validos) then
        [\<lparr>campo = [Txt ''Incoterm''],
          motivo = [Txt (''El Incoterm '' @ apos), Val incoterm, Txt (apos
                      @ '' no es reconocido.'')],
          sugerencia = [Txt (''Verifique el Incoterm. Debe ser uno de: EXW, FCA, FAS, ''
                          @ ''FOB, CFR, CIF, CPT, CIP, DAP, DPU, DDP, etc.'')]\<rparr>]
      else [])"

definition chk_puerto_carga :: "json \<Rightarrow> verror list" where
  "chk_puerto_carga puerto_carga =
     (if esta_vacio puerto_carga then
        [\<lparr>campo = [Txt ''Puerto de Carga''],
          motivo = [Txt (''No se especific'' @ oacute
                      @ '' el puerto o lugar de carga (embarque) de la mercanc'' @ iacute
                      @ ''a.'')],
          sugerencia = [Txt (''Indique el puerto o lugar de origen desde donde se ''
                          @ ''embarca la mercanc'' @ iacute @ ''a.'')]\<rparr>]
      else [])"

definition chk_puerto_desc :: "json \<Rightarrow> verror list" where
  "chk_puerto_desc puerto_desc =
     (if esta_vacio puerto_desc then
        [\<lparr>campo = [Txt ''Puerto de Descarga''],
          motivo = [Txt (''No se especific'' @ oacute
                      @ '' el puerto o lugar de descarga/destino de la mercanc'' @ iacute
                      @ ''a.'')],
          sugerencia = [Txt (''Indique el puerto o lugar de destino donde llegar'' @ aacute
                          @ '' la mercanc'' @ iacute @ ''a.'')]\<rparr>]
      else [])"

definition chk_origen :: "json \<Rightarrow> verror list" where
  "chk_origen origen =
     (if esta_vacio origen then
        [\<lparr>campo = [Txt (''Pa'' @ iacute @ ''s de Origen'')],
          motivo = [Txt (''No se indic'' @ oacute @ '' el pa'' @ iacute
                      @ ''s de origen de la mercanc'' @ iacute @ ''a.'')],
          sugerencia = [Txt (''Especifique el pa'' @ iacute @ ''s de origen de las mercanc''
                          @ iacute @ ''as listadas en la factura.'')]\<rparr>]
      else [])"

definition chk_pago :: "json \<Rightarrow> verror list" where
  "chk_pago pago =
     (if esta_vacio pago then
        [\<lparr>campo = [Txt ''Condiciones de Pago''],
          motivo = [Txt ''No se indicaron las condiciones de pago de la factura.''],
          sugerencia = [Txt (''Indique las condiciones o plazo de pago acordados (por ''
                          @ ''ejemplo, pago a 30 d'' @ iacute
                          @ ''as, contra entrega, etc.).'')]\<rparr>]
      else [])"

text \<open>The pattern \<^verbatim>\<open>^[A-Za-z]{3}$\<close>, matched against the whole trimmed text.\<close>

definition currency_code :: "string \<Rightarrow> bool" where
  "currency_code s = (length s = 3 \<and> list_all is_alpha s)"

definition chk_moneda :: "json \<Rightarrow> verror list" where
  "chk_moneda moneda =
     (if esta_vacio moneda then
        [\<lparr>campo = [Txt ''Moneda''],
          motivo = [Txt (''No se especific'' @ oacute @ '' la moneda en que est'' @ aacute
                      @ '' expresada la factura.'')],
          sugerencia = [Txt (''Indique la moneda de la transacci'' @ oacute
                          @ ''n (por ejemplo USD, EUR, COP).'')]\<rparr>]
      else if \<not> currency_code (py_strip (py_str moneda)) then
        [\<lparr>campo = [Txt ''Moneda''],
          motivo = [Txt (''El valor '' @ apos), Val moneda, Txt (apos @ '' no parece un c''
                      @ oacute @ ''digo de moneda v'' @ aacute @ ''lido.'')],
          sugerencia = [Txt (''Use el c'' @ oacute
                          @ ''digo de moneda de tres letras (p.ej. USD, EUR, COP) ''
                          @ ''correspondiente a la divisa de la factura.'')]\<rparr>]
      else [])"

definition chk_valor_total :: "json \<Rightarrow> verror list" where
  "chk_valor_total valor_total =
     (if esta_vacio valor_total then
        [\<lparr>campo = [Txt ''Valor Total''],
          motivo = [Txt (''No se indic'' @ oacute @ '' el valor total de la factura.'')],
          sugerencia = [Txt (''Incluya el valor total de la factura (suma de todos los ''
                          @ iacute @ ''tems, en la moneda indicada).'')]\<rparr>]
      else if parse_numeric valor_total = None then
        [\<lparr>campo = [Txt ''Valor Total''],
          motivo = [Txt (''El valor total '' @ apos), Val valor_total, Txt (apos
                      @ '' no es un n'' @ uacute @ ''mero v'' @ aacute @ ''lido.'')],
          sugerencia = [Txt (''Aseg'' @ uacute @ ''rese de usar solo d'' @ iacute
                          @ ''gitos y punto/coma decimal en el valor total (ej: ''
                          @ ''12345.67).'')]\<rparr>]
      else [])"

text \<open>\<^verbatim>\<open>campos.get\<close> needs a dict: any other value raises \<^verbatim>\<open>AttributeError\<close>
  at the first line. The errors are appended block after block.\<close>

definition validar_campos_principales :: "json \<Rightarrow> pyerr + verror list" where
  "validar_campos_principales campos =
     (case campos of
        JObj d \<Rightarrow>
          (case chk_fecha_fact (dget d ''InvoiceDate'') of
             Inl e \<Rightarrow> Inl e
           | Inr fecha_errores \<Rightarrow>
               Inr (chk_exp_nombre (dget d ''Supplier'')
                  @ chk_exp_dir (dget d ''SupplierAddress'')
                  @ chk_exp_id (dget d ''SupplierTaxID'')
                  @ chk_imp_nombre (dget d ''Customer'')
                  @ chk_imp_dir (dget d ''CustomerAddress'')
                  @ chk_imp_id (dget d ''CustomerTaxID'')
                  @ chk_num_fact (dget d ''InvoiceNumber'')
                  @ fecha_errores
                  @ chk_incoterm (dget d ''Incoterm'')
                  @ chk_puerto_carga (dget d ''PortOfLoading'')
                  @ chk_puerto_desc (dget d ''PortOfDischarge'')
                  @ chk_origen (dget d ''CountryOfOrigin'')
                  @ chk_pago (dget d ''PaymentTerms'')
                  @ chk_moneda (dget d ''Currency'')
                  @ chk_valor_total (dget d ''TotalInvoiceValue'')))
      | _ \<Rightarrow> Inl AttributeError)"

section \<open>The line item rule set: \<^verbatim>\<open>validar_items\<close>\<close>

definition chk_desc :: "nat \<Rightarrow> json \<Rightarrow> verror list" where
  "chk_desc idx desc =
     (if esta_vacio desc then
        [\<lparr>campo = [Txt (''Descripci'' @ oacute @ ''n (Producto ''), Idx idx, Txt '')''],
          motivo = [Txt (''No se proporcion'' @ oacute @ '' la descripci'' @ oacute
                      @ ''n del producto.'')],
          sugerencia = [Txt (''Incluya una descripci'' @ oacute
                          @ ''n detallada para el producto ''), Idx idx, Txt ''.'']\<rparr>]
      else [])"

definition chk_qty :: "nat \<Rightarrow> json \<Rightarrow> verror list" where
  "chk_qty idx qty =
     (if esta_vacio qty then
        [\<lparr>campo = [Txt ''Cantidad (Producto '', Idx idx, Txt '')''],
          motivo = [Txt (''No se proporcion'' @ oacute @ '' la cantidad del producto.'')],
          sugerencia = [Txt ''Incluya la cantidad del producto '', Idx idx,
                        Txt '' en la unidad indicada.'']\<rparr>]
      else if parse_numeric qty = None then
        [\<lparr>campo = [Txt ''Cantidad (Producto '', Idx idx, Txt '')''],
          motivo = [Txt (''La cantidad '' @ apos), Val qty, Txt (apos @ '' del producto ''),
                    Idx idx, Txt ('' no es num'' @ eacute @ ''rica.'')],
          sugerencia = [Txt (''Indique una cantidad num'' @ eacute @ ''rica (solo d''
                          @ iacute @ ''gitos, puede incluir decimales si aplica).'')]\<rparr>]
      else [])"

definition chk_unit :: "nat \<Rightarrow> json \<Rightarrow> verror list" where
  "chk_unit idx unit =
     (if esta_vacio unit then
        [\<lparr>campo = [Txt ''Unidad (Producto '', Idx idx, Txt '')''],
          motivo = [Txt (''No se indic'' @ oacute @ '' la unidad de medida del producto.'')],
          sugerencia = [Txt (''Incluya la unidad de medida (ej. Kg, piezas, cajas) ''
                          @ ''para el producto ''), Idx idx, Txt ''.'']\<rparr>]
      else [])"

definition chk_price :: "nat \<Rightarrow> json \<Rightarrow> verror list" where
  "chk_price idx price =
     (if esta_vacio price then
        [\<lparr>campo = [Txt ''Precio Unitario (Producto '', Idx idx, Txt '')''],
          motivo = [Txt (''No se proporcion'' @ oacute
                      @ '' el precio unitario del producto.'')],
          sugerencia = [Txt ''Incluya el precio unitario del producto '', Idx idx,
                        Txt '' en la moneda de la factura.'']\<rparr>]
      else if parse_numeric price = None then
        [\<lparr>campo = [Txt ''Precio Unitario (Producto '', Idx idx, Txt '')''],
          motivo = [Txt (''El precio unitario '' @ apos), Val price, Txt (apos
                      @ '' del producto ''), Idx idx, Txt ('' no es un n'' @ uacute
                      @ ''mero v'' @ aacute @ ''lido.'')],
          sugerencia = [Txt (''Verifique el formato; el precio unitario debe ser un ''
                          @ ''valor num'' @ eacute @ ''rico (ej: 123.45).'')]\<rparr>]
      else [])"

definition chk_subtotal :: "nat \<Rightarrow> json \<Rightarrow> verror list" where
  "chk_subtotal idx subtotal =
     (if esta_vacio subtotal then
        [\<lparr>campo = [Txt (''Valor Total '' @ Iacute @ ''tem (Producto ''), Idx idx,
                   Txt '')''],
          motivo = [Txt (''No se proporcion'' @ oacute
                      @ '' el valor total (subtotal) para el '' @ iacute @ ''tem.'')],
          sugerencia = [Txt (''Incluya el valor total (cantidad '' @ por
                          @ '' precio) para el producto ''), Idx idx, Txt ''.'']\<rparr>]
      else if parse_numeric subtotal = None then
        [\<lparr>campo = [Txt (''Valor Total '' @ Iacute @ ''tem (Producto ''), Idx idx,
                   Txt '')''],
          motivo = [Txt (''El valor total '' @ apos), Val subtotal, Txt (apos
                      @ '' del producto ''), Idx idx, Txt ('' no es un n'' @ uacute
                      @ ''mero v'' @ aacute @ ''lido.'')],
          sugerencia = [Txt (''Verifique el formato; el subtotal del producto debe ser ''
                          @ ''num'' @ eacute @ ''rico.'')]\<rparr>]
      else [])"

text \<open>The patterns \<^verbatim>\<open>^\d+(\.\d+)*$\<close> and \<^verbatim>\<open>^\d+$\<close>, each matched against a whole
  text: groups of digits with single dots between them, and digits only.\<close>

definition digit_groups :: "string \<Rightarrow> bool" where
  "digit_groups s = list_all digits (py_split (CHR ''.'') s)"

definition chk_hs :: "nat \<Rightarrow> json \<Rightarrow> verror list" where
  "chk_hs idx hs =
     (if esta_vacio hs then
        [\<lparr>campo = [Txt (''C'' @ oacute @ ''digo HS (Producto ''), Idx idx, Txt '')''],
          motivo = [Txt (''No se proporcion'' @ oacute @ '' el c'' @ oacute
                      @ ''digo arancelario (HS) del producto.'')],
          sugerencia = [Txt (''Incluya el c'' @ oacute @ ''digo HS (6 d'' @ iacute
                          @ ''gitos o m'' @ aacute @ ''s) correspondiente al producto ''),
                        Idx idx, Txt ''.'']\<rparr>]
      else if \<not> digit_groups (py_strip (py_str hs))
              \<or> \<not> digits (remove_char (CHR ''.'') (py_strip (py_str hs))) then
        [\<lparr>campo = [Txt (''C'' @ oacute @ ''digo HS (Producto ''), Idx idx, Txt '')''],
          motivo = [Txt (''El c'' @ oacute @ ''digo HS '' @ apos), Val hs, Txt (apos
                      @ '' del producto ''), Idx idx, Txt ('' tiene un formato inv''
                      @ aacute @ ''lido.'')],
          sugerencia = [Txt (''Verifique el c'' @ oacute
                          @ ''digo; debe consistir solo de n'' @ uacute
                          @ ''meros (puede separarlo en grupos con puntos).'')]\<rparr>]
      else [])"

definition chk_weight :: "nat \<Rightarrow> json \<Rightarrow> verror list" where
  "chk_weight idx weight =
     (if esta_vacio weight then
        [\<lparr>campo = [Txt ''Peso (Producto '', Idx idx, Txt '')''],
          motivo = [Txt (''No se proporcion'' @ oacute @ '' el peso del producto.'')],
          sugerencia = [Txt (''Incluya el peso (neto o bruto, seg'' @ uacute
                          @ ''n corresponda) del producto ''), Idx idx, Txt ''.'']\<rparr>]
      else if parse_numeric weight = None then
        [\<lparr>campo = [Txt ''Peso (Producto '', Idx idx, Txt '')''],
          motivo = [Txt (''El peso '' @ apos), Val weight, Txt (apos @ '' del producto ''),
                    Idx idx, Txt ('' no es un valor num'' @ eacute @ ''rico v'' @ aacute
                      @ ''lido.'')],
          sugerencia = [Txt (''Verifique el valor; el peso debe ser num'' @ eacute
                          @ ''rico (puede incluir decimales).'')]\<rparr>]
      else [])"

text \<open>\<^verbatim>\<open>packages_val != int(packages_val)\<close>: \<^verbatim>\<open>int\<close> raises \<^verbatim>\<open>ValueError\<close> on a
  NaN and \<^verbatim>\<open>OverflowError\<close> on an infinity.\<close>

definition not_whole :: "pyfloat \<Rightarrow> pyerr + bool" where
  "not_whole x =
     (case x of
        Fin a \<Rightarrow> Inr (a \<noteq> of_int \<lfloor>a\<rfloor>)
      | NaN \<Rightarrow> Inl ValueError
      | _ \<Rightarrow> Inl OverflowError)"

definition chk_packages :: "nat \<Rightarrow> json \<Rightarrow> pyerr + verror list" where
  "chk_packages idx packages =
     (if esta_vacio packages then
        Inr [\<lparr>campo = [Txt (''N'' @ uacute @ ''mero de Paquetes (Producto ''), Idx idx,
                       Txt '')''],
              motivo = [Txt (''No se indic'' @ oacute @ '' el n'' @ uacute
                          @ ''mero de paquetes o cajas del producto.'')],
              sugerencia = [Txt (''Incluya la cantidad de paquetes, cajas u otras unidades ''
                              @ ''de empaque para el producto ''), Idx idx,
                            Txt ''.'']\<rparr>]
      else
        (case (case parse_numeric packages of None \<Rightarrow> Inr True | Some packages_val \<Rightarrow> not_whole packages_val) of
           Inl e \<Rightarrow> Inl e
         | Inr bad \<Rightarrow>
             Inr (if bad then
               [\<lparr>campo = [Txt (''N'' @ uacute @ ''mero de Paquetes (Producto ''), Idx idx,
                          Txt '')''],
                 motivo = [Txt (''El valor '' @ apos), Val packages, Txt (apos
                             @ '' para los paquetes del producto ''), Idx idx,
                           Txt ('' no es un n'' @ uacute @ ''mero entero v'' @ aacute
                             @ ''lido.'')],
                 sugerencia = [Txt (''Verifique el n'' @ uacute
                                 @ ''mero de paquetes; debe ser un n'' @ uacute
                                 @ ''mero entero (ej: 1, 5, 10).'')]\<rparr>]
             else [])))"

definition chk_currency :: "nat \<Rightarrow> json \<Rightarrow> json \<Rightarrow> verror list" where
  "chk_currency idx item_currency moneda_factura =
     (if truthy item_currency \<and> truthy moneda_factura
         \<and> py_upper (py_strip (py_str item_currency)) \<noteq> py_upper (py_strip (py_str moneda_factura)) then
        [\<lparr>campo = [Txt ''Moneda (Producto '', Idx idx, Txt '')''],
          motivo = [Txt ''La moneda del producto '', Idx idx, Txt '' ('', Val item_currency,
                    Txt '') difiere de la moneda de la factura ('', Val moneda_factura,
                    Txt '').''],
          sugerencia = [Txt (''Aseg'' @ uacute @ ''rese de que todos los '' @ iacute
                          @ ''tems est'' @ eacute
                          @ ''n expresados en la misma moneda que la factura.'')]\<rparr>]
      else [])"

text \<open>
  \<^verbatim>\<open>qty_val\<close>, \<^verbatim>\<open>price_val\<close> and \<^verbatim>\<open>subtotal_val\<close> are locals of the function, not
  of the loop body: a block assigns its variable only when the field is not empty, so the
  variable keeps the value of an earlier item otherwise. A local is unbound (\<open>None\<close>),
  bound to \<^verbatim>\<open>None\<close> (\<open>Some None\<close>) or bound to a float. The state of the loop is these
  three, the running sum and the errors so far.
\<close>

record estado =
  qty_val :: "pyfloat option option"
  price_val :: "pyfloat option option"
  subtotal_val :: "pyfloat option option"
  suma_items :: pyfloat
  errores_items :: "verror list"

definition asignar :: "json \<Rightarrow> pyfloat option option \<Rightarrow> pyfloat option option" where
  "asignar valor anterior = (if esta_vacio valor then anterior else Some (parse_numeric valor))"

text \<open>
  The accumulation, inside \<^verbatim>\<open>try ... except: pass\<close>. With \<^verbatim>\<open>subtotal_val\<close>
  unbound, the first test is false and the second either stops at an unbound
  \<^verbatim>\<open>qty_val\<close> or \<^verbatim>\<open>price_val\<close>, or raises at \<^verbatim>\<open>subtotal_val is None\<close> and is
  caught: nothing is added.
\<close>

definition acumular :: "estado \<Rightarrow> pyfloat" where
  "acumular st =
     (case subtotal_val st of
        Some (Some s) \<Rightarrow> fadd (suma_items st) s
      | Some None \<Rightarrow>
          (case (qty_val st, price_val st) of
             (Some (Some q), Some (Some p)) \<Rightarrow> fadd (suma_items st) (fmul q p)
           | _ \<Rightarrow> suma_items st)
      | None \<Rightarrow> suma_items st)"

text \<open>The float \<^verbatim>\<open>0.01\<close>.\<close>

definition tolerancia :: pyfloat where
  "tolerancia = to_double (1 / 100)"

definition chk_coherencia :: "nat \<Rightarrow> json \<Rightarrow> json \<Rightarrow> json \<Rightarrow> estado \<Rightarrow> verror list" where
  "chk_coherencia idx qty price subtotal st =
     (case (qty_val st, price_val st, subtotal_val st) of
        (Some (Some q), Some (Some p), Some (Some s)) \<Rightarrow>
          (let expected_subtotal = fround2 (fmul q p) in
           if fgt (fabs (fsub s expected_subtotal)) tolerancia then
             [\<lparr>campo = [Txt (''Valor Total '' @ Iacute @ ''tem (Producto ''), Idx idx,
                        Txt '')''],
               motivo = [Txt ''El valor total del producto '', Idx idx, Txt '' ('',
                         Val subtotal, Txt ('') no coincide con cantidad '' @ por
                           @ '' precio unitario.'')],
               sugerencia = [Txt ''Corrija el subtotal del producto '', Idx idx, Txt '': '',
                             Val qty, Txt ('' '' @ por @ '' ''), Val price, Txt ('' deber''
                               @ iacute @ ''a ser aproximadamente ''),
                             Fix2 expected_subtotal, Txt ''.'']\<rparr>]
           else [])
      | _ \<Rightarrow> [])"

text \<open>One pass of the loop body; \<^verbatim>\<open>item.get\<close> needs a dict.\<close>

definition item_locals :: "(string \<times> json) list \<Rightarrow> estado \<Rightarrow> estado" where
  "item_locals it st =
     st\<lparr>qty_val := asignar (dget it ''Quantity'') (qty_val st),
        price_val := asignar (dget it ''UnitPrice'') (price_val st),
        subtotal_val := asignar (dget it ''NetValuePerItem'') (subtotal_val st)\<rparr>"

definition item_fields :: "nat \<Rightarrow> (string \<times> json) list \<Rightarrow> verror list" where
  "item_fields idx it =
     chk_desc idx (dget it ''Description'')
     @ chk_qty idx (dget it ''Quantity'')
     @ chk_unit idx (dget it ''UnitOfMeasurement'')
     @ chk_price idx (dget it ''UnitPrice'')
     @ chk_subtotal idx (dget it ''NetValuePerItem'')
     @ chk_hs idx (dget it ''HSCode'')
     @ chk_weight idx (dget it ''Weight'')"

text \<open>The end of the loop body, with the locals of this pass assigned: the sum and the
  errors of the pass, appended to the errors so far.\<close>

definition item_cierre ::
  "json \<Rightarrow> nat \<Rightarrow> (string \<times> json) list \<Rightarrow> verror list \<Rightarrow> verror list \<Rightarrow> estado \<Rightarrow> estado" where
  "item_cierre moneda_factura idx it previos packages_errores st =
     st\<lparr>suma_items := acumular st,
        errores_items := previos
          @ item_fields idx it
          @ packages_errores
          @ chk_currency idx (dget it ''Currency'') moneda_factura
          @ chk_coherencia idx (dget it ''Quantity'') (dget it ''UnitPrice'')
              (dget it ''NetValuePerItem'') st\<rparr>"

definition item_step :: "json \<Rightarrow> nat \<Rightarrow> json \<Rightarrow> estado \<Rightarrow> pyerr + estado" where
  "item_step moneda_factura idx item st =
     (case item of
        JObj it \<Rightarrow>
          (case chk_packages idx (dget it ''NumberOfPackagesBoxes'') of
             Inl e \<Rightarrow> Inl e
           | Inr packages_errores \<Rightarrow>
               Inr (item_cierre moneda_factura idx it (errores_items st) packages_errores
                      (item_locals it st)))
      | _ \<Rightarrow> Inl AttributeError)"

fun items_loop :: "json \<Rightarrow> nat \<Rightarrow> json list \<Rightarrow> estado \<Rightarrow> pyerr + estado" where
  "items_loop moneda_factura idx [] st = Inr st"
| "items_loop moneda_factura idx (item # rest) st =
     (case item_step moneda_factura idx item st of
        Inl e \<Rightarrow> Inl e
      | Inr st' \<Rightarrow> items_loop moneda_factura (Suc idx) rest st')"

text \<open>What a \<^verbatim>\<open>for\<close> loop runs over: the elements of a list, the keys of a dict, the
  characters of a string; anything else is not iterable.\<close>

definition py_iter :: "json \<Rightarrow> pyerr + json list" where
  "py_iter v =
     (case v of
        JArr xs \<Rightarrow> Inr xs
      | JObj kvs \<Rightarrow> Inr (map (\<lambda>kv. JStr (fst kv)) (AList.clearjunk kvs))
      | JStr s \<Rightarrow> Inr (map (\<lambda>c. JStr [c]) s)
      | _ \<Rightarrow> Inl TypeError)"

definition estado_inicial :: estado where
  "estado_inicial = \<lparr>qty_val = None, price_val = None, subtotal_val = None,
                      suma_items = Fin 0, errores_items = []\<rparr>"

section \<open>The reconciliation check\<close>

definition reconciliacion :: "pyfloat \<Rightarrow> pyfloat option \<Rightarrow> verror list" where
  "reconciliacion suma total_opt =
     (case total_opt of
        None \<Rightarrow> []
      | Some total_factura \<Rightarrow>
          (let suma_redondeada = fround2 suma in
           if fgt (fabs (fsub suma_redondeada total_factura)) tolerancia then
             [\<lparr>campo = [Txt (''Valor Total vs Suma '' @ Iacute @ ''tems'')],
               motivo = [Txt (''La suma de los valores de los '' @ iacute @ ''tems (''),
                         Flt suma_redondeada,
                         Txt '') no coincide con el valor total de la factura ('',
                         Flt total_factura, Txt '').''],
               sugerencia = [Txt (''Verifique que la suma de todos los subtotales de ''
                               @ ''productos coincida exactamente con el valor total de la ''
                               @ ''factura.'')]\<rparr>]
           else []))"

definition validar_items :: "json \<Rightarrow> json \<Rightarrow> pyfloat option \<Rightarrow> pyerr + verror list" where
  "validar_items items moneda_factura total_factura =
     (case py_iter items of
        Inl e \<Rightarrow> Inl e
      | Inr xs \<Rightarrow>
          (case items_loop moneda_factura 1 xs estado_inicial of
             Inl e \<Rightarrow> Inl e
           | Inr st \<Rightarrow> Inr (errores_items st @ reconciliacion (suma_items st) total_factura)))"

section \<open>The engine: \<^verbatim>\<open>validar_factura\<close>\<close>

text \<open>
  The header may come as a list of pairs. For each pair the key is the first true one of
  \<^verbatim>\<open>Fields\<close>, \<^verbatim>\<open>Field\<close>, \<^verbatim>\<open>Nombre\<close>, \<^verbatim>\<open>name\<close> and the value the first true one
  of \<^verbatim>\<open>Value\<close>, \<^verbatim>\<open>Valor\<close>, or else whatever \<^verbatim>\<open>value\<close> holds. A later pair
  overwrites an earlier one with the same key: it is put in front. A true key that is a
  number or a boolean is stored under a key that no lookup by a field name finds, so the
  model leaves it out; a list or a dict cannot be a key.
\<close>

fun campos_de_lista :: "json list \<Rightarrow> (string \<times> json) list \<Rightarrow> pyerr + (string \<times> json) list" where
  "campos_de_lista [] campos = Inr campos"
| "campos_de_lista (JObj item # rest) campos =
     (let key = py_or (py_or (py_or (dget item ''Fields'') (dget item ''Field''))
                  (dget item ''Nombre'')) (dget item ''name'');
          valor = py_or (py_or (dget item ''Value'') (dget item ''Valor'')) (dget item ''value'')
      in if truthy key then
           (case key of
              JStr k \<Rightarrow> campos_de_lista rest ((k, valor) # campos)
            | JArr xs \<Rightarrow> Inl TypeError
            | JObj kvs \<Rightarrow> Inl TypeError
            | _ \<Rightarrow> campos_de_lista rest campos)
         else campos_de_lista rest campos)"
| "campos_de_lista (x # rest) campos = Inl AttributeError"

definition normalizar_campos :: "(string \<times> json) list \<Rightarrow> pyerr + json" where
  "normalizar_campos data =
     (case map_of data ''Fields'' of
        Some (JArr pares) \<Rightarrow>
          (case campos_de_lista pares [] of Inl e \<Rightarrow> Inl e | Inr campos \<Rightarrow> Inr (JObj campos))
      | Some v \<Rightarrow> Inr v
      | None \<Rightarrow> Inr (JObj data))"

definition items_de :: "(string \<times> json) list \<Rightarrow> json" where
  "items_de data =
     (case map_of data ''Table'' of
        Some v \<Rightarrow> v
      | None \<Rightarrow>
          (case map_of data ''Items'' of
             Some v \<Rightarrow> v
           | None \<Rightarrow> (case map_of data ''Productos'' of Some v \<Rightarrow> v | None \<Rightarrow> JArr [])))"

record informe =
  resultado :: string
  errores :: "verror list"

definition informe_de :: "verror list \<Rightarrow> informe" where
  "informe_de errores_totales =
     \<lparr>resultado = (if length errores_totales = 0 then ''Cumple'' else ''No cumple''),
      errores = errores_totales\<rparr>"

text \<open>After the header rule set has returned, \<^verbatim>\<open>campos\<close> is a dict.\<close>

definition campo_de :: "json \<Rightarrow> string \<Rightarrow> json" where
  "campo_de campos k = (case campos of JObj d \<Rightarrow> dget d k | _ \<Rightarrow> JNull)"

definition validar_factura :: "(string \<times> json) list \<Rightarrow> pyerr + informe" where
  "validar_factura data =
     (case normalizar_campos data of
        Inl e \<Rightarrow> Inl e
      | Inr campos \<Rightarrow>
          (case validar_campos_principales campos of
             Inl e \<Rightarrow> Inl e
           | Inr errores_cabecera \<Rightarrow>
               (case validar_items (items_de data) (campo_de campos ''Currency'')
                       (parse_numeric (campo_de campos ''TotalInvoiceValue'')) of
                  Inl e \<Rightarrow> Inl e
                | Inr errores_de_items \<Rightarrow> Inr (informe_de (errores_cabecera @ errores_de_items)))))"

section \<open>The specification's wording\<close>

text \<open>
  The definitions of this section are not read off the code. They say the same things in
  the words of the specification, so that a theorem can compare the two.
\<close>

subsection \<open>The numeric normalizer as the specification describes it\<close>

text \<open>
  Of \<open>.\<close> and \<open>,\<close>, when both occur, the one that occurs later is the decimal separator
  and the other is stripped. With only commas, a single comma with at most two characters
  after it is the decimal separator; otherwise the commas are stripped. With only dots
  the text is parsed as it is. With neither, the text must match \<^verbatim>\<open>-?\d+\<close>.
\<close>

definition later_separator :: "string \<Rightarrow> char" where
  "later_separator s = last (filter (\<lambda>c. c = CHR ''.'' \<or> c = CHR '','') s)"

definition with_decimal :: "char \<Rightarrow> string \<Rightarrow> string" where
  "with_decimal dec s =
     map (\<lambda>c. if c = dec then CHR ''.'' else c)
         (filter (\<lambda>c. c = dec \<or> (c \<noteq> CHR ''.'' \<and> c \<noteq> CHR '','')) s)"

definition after_comma :: "string \<Rightarrow> string" where
  "after_comma s = tl (dropWhile (\<lambda>c. c \<noteq> CHR '','') s)"

definition numeric_normalizer :: "string \<Rightarrow> pyfloat option" where
  "numeric_normalizer s =
     (if s = [] then None
      else if CHR ''.'' \<in> set s \<and> CHR '','' \<in> set s then
        py_float (with_decimal (later_separator s) s)
      else if CHR '','' \<in> set s then
        (if count_list s (CHR '','') = 1 \<and> length (after_comma s) \<le> 2
         then py_float (with_decimal (CHR '','') s)
         else py_float (filter (\<lambda>c. c \<noteq> CHR '','') s))
      else if CHR ''.'' \<in> set s then py_float s
      else if int_literal s then py_float s
      else None)"

subsection \<open>The required header fields\<close>

text \<open>The fifteen required fields, each with the label its errors carry, in the order of
  the header rule set.\<close>

definition campos_requeridos :: "(string \<times> string) list" where
  "campos_requeridos =
     [(''Supplier'', ''Exportador - Nombre''),
      (''SupplierAddress'', ''Exportador - Direcci'' @ oacute @ ''n''),
      (''SupplierTaxID'', ''Exportador - NIT/ID''),
      (''Customer'', ''Importador - Nombre''),
      (''CustomerAddress'', ''Importador - Direcci'' @ oacute @ ''n''),
      (''CustomerTaxID'', ''Importador - NIT/ID''),
      (''InvoiceNumber'', ''N'' @ uacute @ ''mero de Factura''),
      (''InvoiceDate'', ''Fecha de Factura''),
      (''Incoterm'', ''Incoterm''),
      (''PortOfLoading'', ''Puerto de Carga''),
      (''PortOfDischarge'', ''Puerto de Descarga''),
      (''CountryOfOrigin'', ''Pa'' @ iacute @ ''s de Origen''),
      (''PaymentTerms'', ''Condiciones de Pago''),
      (''Currency'', ''Moneda''),
      (''TotalInvoiceValue'', ''Valor Total'')]"

text \<open>A field is present and valid: not empty, and of the format its rule asks for.\<close>

definition campo_valido :: "string \<Rightarrow> json \<Rightarrow> bool" where
  "campo_valido k v =
     (\<not> esta_vacio v \<and>
      (if k = ''InvoiceDate'' then es_fecha_valida v = Inr True
       else if k = ''Incoterm'' then
         py_upper (py_strip (py_str v)) \<in> set (map code_points incoterms_validos)
       else if k = ''Currency'' then currency_code (py_strip (py_str v))
       else if k = ''TotalInvoiceValue'' then parse_numeric v \<noteq> None
       else True))"

text \<open>The field \<open>k\<close> is empty and every other required field is present and valid.\<close>

definition solo_falta :: "string \<Rightarrow> (string \<times> json) list \<Rightarrow> bool" where
  "solo_falta k d =
     (esta_vacio (dget d k) \<and>
      list_all (\<lambda>kl. fst kl = k \<or> campo_valido (fst kl) (dget d (fst kl))) campos_requeridos)"

definition etiqueta_reconciliacion :: "frag list" where
  "etiqueta_reconciliacion = [Txt (''Valor Total vs Suma '' @ Iacute @ ''tems'')]"

section \<open>A sample invoice\<close>

text \<open>A complete invoice, with two items whose values add up to the declared total. The
  theorems below are applied to it and to variants of it.\<close>

definition cabecera_ejemplo :: "(string \<times> json) list" where
  "cabecera_ejemplo =
     [(''Supplier'', JStr ''ACME GmbH''),
      (''SupplierAddress'', JStr ''Hamburg, Germany''),
      (''SupplierTaxID'', JStr ''DE123456789''),
      (''Customer'', JStr ''Importadora Andina''),
      (''CustomerAddress'', JStr ''Bogota, Colombia''),
      (''CustomerTaxID'', JStr ''900123456-7''),
      (''InvoiceNumber'', JStr ''58846''),
      (''InvoiceDate'', JStr ''31/12/2024''),
      (''Incoterm'', JStr ''fob''),
      (''PortOfLoading'', JStr ''Hamburg''),
      (''PortOfDischarge'', JStr ''Cartagena''),
      (''CountryOfOrigin'', JStr ''Germany''),
      (''PaymentTerms'', JStr ''30 dias''),
      (''Currency'', JStr ''USD''),
      (''TotalInvoiceValue'', JStr ''300.00'')]"

definition items_ejemplo :: "json list" where
  "items_ejemplo =
     [JObj [(''Description'', JStr ''Tornillos''), (''Quantity'', JStr ''1''),
            (''UnitOfMeasurement'', JStr ''caja''), (''UnitPrice'', JStr ''100.00''),
            (''NetValuePerItem'', JStr ''100.00''), (''HSCode'', JStr ''7318.15''),
            (''Weight'', JStr ''12,5''), (''NumberOfPackagesBoxes'', JStr ''1'')],
      JObj [(''Description'', JStr ''Tuercas''), (''Quantity'', JStr ''2''),
            (''UnitOfMeasurement'', JStr ''caja''), (''UnitPrice'', JStr ''100.00''),
            (''NetValuePerItem'', JStr ''200.00''), (''HSCode'', JStr ''7318.16''),
            (''Weight'', JStr ''20''), (''NumberOfPackagesBoxes'', JStr ''2'')]]"

definition factura_ejemplo :: "(string \<times> json) list" where
  "factura_ejemplo = [(''Fields'', JObj cabecera_ejemplo), (''Table'', JArr items_ejemplo)]"

section \<open>Evaluating the model\<close>

text \<open>Rules that let the simplifier compute with rationals and bit lengths, and the
  definitions to unfold when a function is run on a concrete input.\<close>

lemma floor_rat_numeral_div [simp]:
  "\<lfloor>numeral a / numeral b :: rat\<rfloor> = numeral a div numeral b"
  by (metis floor_divide_of_int_eq of_int_numeral)

lemma ceiling_rat_numeral_div [simp]:
  "\<lceil>numeral a / numeral b :: rat\<rceil> = - (- numeral a div numeral b)"
  by (metis ceiling_def floor_divide_of_int_eq minus_divide_left of_int_minus of_int_numeral)

lemma blen_numeral [simp]:
  "blen 0 = 0"
  "blen (Suc 0) = 1"
  "blen (numeral Num.One) = 1"
  "blen (numeral (Num.Bit0 n)) = Suc (blen (numeral n))"
  "blen (numeral (Num.Bit1 n)) = Suc (blen (numeral n))"
proof -
  show "blen 0 = 0" by (simp add: blen.simps)
  show "blen (Suc 0) = 1" by (simp add: blen.simps)
  show "blen (numeral Num.One) = 1" by (simp add: blen.simps)
  have "numeral (Num.Bit0 n) div 2 = (numeral n :: nat)" by simp
  then show "blen (numeral (Num.Bit0 n)) = Suc (blen (numeral n))"
    by (subst blen.simps) simp
  have "numeral (Num.Bit1 n) div 2 = (numeral n :: nat)" by simp
  then show "blen (numeral (Num.Bit1 n)) = Suc (blen (numeral n))"
    by (subst blen.simps) simp
qed

lemmas float_eval =
  to_double_def overflow_def round_to_def ulp_exp_def ilog2_def rhe_def rhe_at_def pow2_def
  fsub_def inf_times_def tolerancia_def

lemmas string_eval =
  py_float_def signed_float_def unsigned_float_def decimal_of_def after_int_def
  mantissa_exp_def scale10_def exponent_of_def digits_def digits_val_def digit_val_def trim_def
  remove_char_def replace_char_def rfind_def is_digit_def is_cspace_def is_space_def
  is_alpha_def py_lower_def lower_cp_def py_upper_def upper_cp_def code_points_def
  float_blank_def py_strip_def py_str_def

lemmas numeric_eval =
  parse_numeric_def parse_text_def comma_only_def both_separators_def int_literal_def

lemmas fecha_eval =
  es_fecha_valida_def strptime_ok_def formatos_def valid_date_def days_in_month_def leap_def
  set_field_def directive_def two_chars_def one_char_def four_digits_def

lemmas header_eval =
  validar_campos_principales_def chk_exp_nombre_def chk_exp_dir_def chk_exp_id_def
  chk_imp_nombre_def chk_imp_dir_def chk_imp_id_def chk_num_fact_def chk_fecha_fact_def
  chk_incoterm_def incoterms_validos_def chk_puerto_carga_def chk_puerto_desc_def
  chk_origen_def chk_pago_def chk_moneda_def currency_code_def chk_valor_total_def
  esta_vacio_def dget_def

lemmas items_eval =
  chk_desc_def chk_qty_def chk_unit_def chk_price_def chk_subtotal_def chk_hs_def
  digit_groups_def chk_weight_def not_whole_def chk_packages_def chk_currency_def
  asignar_def acumular_def chk_coherencia_def item_locals_def item_fields_def item_cierre_def item_step_def
  py_iter_def estado_inicial_def reconciliacion_def validar_items_def

lemmas engine_eval =
  py_or_def normalizar_campos_def items_de_def informe_de_def campo_de_def validar_factura_def

section \<open>The built-ins on Latin-1 text\<close>

text \<open>
  The no-break space and the next-line control are whitespace for \<^verbatim>\<open>strip\<close> and at the
  ends of the argument of \<^verbatim>\<open>float()\<close>; the separators 0x1C-0x1F are whitespace for
  \<^verbatim>\<open>strip\<close> only. The case mappings know the letters of the Latin-1 supplement.
\<close>

lemma whitespace_beyond_ascii:
  "py_strip (nbsp @ ''x '' @ [CHR 0x85]) = ''x''"
  "esta_vacio (JStr nbsp)"
  "esta_vacio (JStr (nbsp @ ''N/A''))"
  "py_float (''1234'' @ nbsp) = Some (Fin 1234)"
  "py_float ([CHR 0x85] @ ''1_0'' @ nbsp) = Some (Fin 10)"
  "py_float (''1.5'' @ [CHR 0x1C]) = None"
  "py_float (''1'' @ nbsp @ ''2'') = None"
  "parse_numeric (JStr (nbsp @ ''123'')) = Some (Fin 123)"
  by (simp_all add: numeric_eval string_eval float_eval esta_vacio_def)

lemma case_beyond_ascii:
  "py_upper (''stra'' @ [CHR 0xDF] @ ''e'') = code_points ''STRASSE''"
  "py_upper eacute = [201]"
  "py_upper [CHR 0xFF, CHR 0xB5, CHR 0xF7] = [376, 924, 247]"
  "py_lower [CHR 0xC9, CHR 0xD7, CHR ''Q''] = [233, 215, 113]"
  by (simp_all add: string_eval)

section \<open>The rounding of floats\<close>

text \<open>What makes \<open>to_double\<close> the rounding to the nearest float: \<open>blen\<close> is the bit
  length, \<open>ilog2\<close> the binary exponent, and \<open>rhe\<close> rounds to a nearest integer, to the
  even one at a tie.\<close>

lemma blen_bounds: "0 < n \<Longrightarrow> 2 ^ (blen n - 1) \<le> n \<and> n < 2 ^ blen n"
proof (induction n rule: blen.induct)
  case (1 n)
  show ?case
  proof (cases "n div 2 = 0")
    case True
    with 1(2) have "n = 1" by (auto simp: div_eq_0_iff)
    then show ?thesis by (simp add: blen.simps)
  next
    case False
    then have pos: "0 < n div 2" by simp
    from 1(1) [OF _ pos] 1(2) have ih: "2 ^ (blen (n div 2) - 1) \<le> n div 2" "n div 2 < 2 ^ blen (n div 2)"
      by simp_all
    have b: "blen n = Suc (blen (n div 2))"
      using 1(2) by (subst blen.simps) simp
    have bp: "0 < blen (n div 2)"
      using pos by (subst blen.simps) simp
    then have e: "(2::nat) ^ blen (n div 2) = 2 * 2 ^ (blen (n div 2) - 1)"
      by (cases "blen (n div 2)") simp_all
    from ih(1) have "2 * 2 ^ (blen (n div 2) - 1) \<le> n" by arith
    moreover from ih(2) have "n < 2 * 2 ^ blen (n div 2)" by arith
    ultimately show ?thesis
      unfolding b using e by simp
  qed
qed

lemma rhe_nearest: "\<bar>x - of_int (rhe x)\<bar> \<le> 1 / 2"
proof -
  define f where "f = \<lfloor>x\<rfloor>"
  have "of_int f \<le> x" "x < of_int f + 1"
    unfolding f_def by linarith+
  then show ?thesis
    unfolding rhe_def rhe_at_def f_def [symmetric]
    by (auto simp: abs_if)
qed

lemma rhe_tie_even: "x - of_int \<lfloor>x\<rfloor> = 1 / 2 \<Longrightarrow> even (rhe x)"
  by (simp add: rhe_def rhe_at_def)

lemma ilog2_bounds:
  assumes "0 < x"
  shows "pow2 (ilog2 x) \<le> x \<and> x < pow2 (ilog2 x + 1)"
proof (cases "1 \<le> x")
  case True
  define n where "n = nat \<lfloor>x\<rfloor>"
  from True have n1: "0 < n" by (simp add: n_def)
  have nx: "of_nat n \<le> x" "x < of_nat n + 1"
    using True unfolding n_def by (simp_all add: of_nat_nat) linarith+
  from blen_bounds [OF n1] have b: "2 ^ (blen n - 1) \<le> n" "n < 2 ^ blen n" by simp_all
  have bp: "0 < blen n" using n1 by (subst blen.simps) simp
  have e: "ilog2 x = int (blen n) - 1"
    using True by (simp add: ilog2_def n_def)
  have "(2::rat) ^ (blen n - 1) \<le> of_nat n"
    using b(1) by (metis of_nat_le_iff of_nat_numeral of_nat_power)
  then have lo: "(2::rat) ^ (blen n - 1) \<le> x" using nx(1) by linarith
  have "Suc n \<le> 2 ^ blen n" using b(2) by simp
  then have "(of_nat (Suc n) :: rat) \<le> 2 ^ blen n"
    by (metis of_nat_le_iff of_nat_numeral of_nat_power)
  then have hi: "x < (2::rat) ^ blen n" using nx(2) by simp
  from bp have "nat (int (blen n) - 1) = blen n - 1" by simp
  with lo hi bp show ?thesis
    unfolding e pow2_def by simp
next
  case False
  then have x1: "x < 1" by simp
  define n where "n = nat (\<lceil>1 / x\<rceil> - 1)"
  have inv: "1 < 1 / x" using assms x1 by simp
  then have c2: "2 \<le> \<lceil>1 / x\<rceil>" by linarith
  then have n1: "0 < n" by (simp add: n_def)
  have nx: "of_nat n < 1 / x" "1 / x \<le> of_nat n + 1"
    using c2 unfolding n_def by (simp_all add: of_nat_nat) linarith+
  from blen_bounds [OF n1] have b: "2 ^ (blen n - 1) \<le> n" "n < 2 ^ blen n" by simp_all
  have bp: "0 < blen n" using n1 by (subst blen.simps) simp
  have e: "ilog2 x = - int (blen n)"
    using False by (simp add: ilog2_def n_def)
  have "Suc n \<le> 2 ^ blen n" using b(2) by simp
  then have "(of_nat (Suc n) :: rat) \<le> 2 ^ blen n"
    by (metis of_nat_le_iff of_nat_numeral of_nat_power)
  then have "1 / x \<le> (2::rat) ^ blen n" using nx(2) by simp
  then have lo: "1 / 2 ^ blen n \<le> x"
    using assms by (simp add: field_simps)
  have "(2::rat) ^ (blen n - 1) \<le> of_nat n"
    using b(1) by (metis of_nat_le_iff of_nat_numeral of_nat_power)
  then have "(2::rat) ^ (blen n - 1) < 1 / x" using nx(1) by linarith
  then have hi: "x < 1 / 2 ^ (blen n - 1)"
    using assms by (simp add: field_simps)
  show ?thesis
  proof (cases "blen n = 1")
    case True
    with lo hi show ?thesis unfolding e pow2_def by simp
  next
    case False
    with bp have "nat (int (blen n) - 1) = blen n - 1" "\<not> 0 \<le> - int (blen n) + 1" by simp_all
    with lo hi bp show ?thesis
      unfolding e pow2_def by simp
  qed
qed

section \<open>The numeric normalizer against the specification's wording\<close>

lemma py_split_not_Nil: "py_split c s \<noteq> []"
  by (induction s) (auto split: list.splits)

lemma length_py_split: "length (py_split c s) = Suc (count_list s c)"
  using py_split_not_Nil [of c] by (induction s) (auto split: list.splits)

lemma py_split_absent: "c \<notin> set s \<Longrightarrow> py_split c s = [s]"
  by (induction s) auto

lemma py_split_second:
  "count_list s c = 1 \<Longrightarrow> py_split c s ! 1 = tl (dropWhile (\<lambda>x. x \<noteq> c) s)"
proof (induction s)
  case Nil
  then show ?case by simp
next
  case (Cons x xs)
  show ?case
  proof (cases "x = c")
    case True
    with Cons.prems have "c \<notin> set xs"
      by (simp add: count_list_0_iff)
    with True show ?thesis
      by (simp add: py_split_absent)
  next
    case False
    with Cons.prems have one: "count_list xs c = 1" by simp
    obtain p ps where sp: "py_split c xs = p # ps"
      using py_split_not_Nil [of c xs] by (cases "py_split c xs") auto
    have "length (py_split c xs) = 2"
      using one by (simp add: length_py_split)
    with sp have "ps \<noteq> []" by auto
    with False sp Cons.IH [OF one] show ?thesis
      by (cases ps) auto
  qed
qed

lemma rfind_later:
  "c \<noteq> d \<Longrightarrow> c \<in> set s \<or> d \<in> set s \<Longrightarrow>
     (rfind d s < rfind c s) = (last (filter (\<lambda>x. x = d \<or> x = c) s) = c)"
proof -
  assume cd: "c \<noteq> d"
  have main: "c \<in> set r \<or> d \<in> set r \<Longrightarrow>
      (length (dropWhile (\<lambda>x. x \<noteq> d) r) < length (dropWhile (\<lambda>x. x \<noteq> c) r))
       = (hd (filter (\<lambda>x. x = d \<or> x = c) r) = c)" for r
  proof (induction r)
    case Nil
    then show ?case by simp
  next
    case (Cons x r)
    have le: "length (dropWhile P r) \<le> length r" for P :: "char \<Rightarrow> bool"
      by (simp add: length_dropWhile_le)
    show ?case
    proof (cases "x = c \<or> x = d")
      case True
      then show ?thesis
        using cd le [of "\<lambda>x. x \<noteq> d"] le [of "\<lambda>x. x \<noteq> c"]
        by (auto simp: less_Suc_eq_le not_less)
    next
      case False
      with Cons show ?thesis by auto
    qed
  qed
  assume "c \<in> set s \<or> d \<in> set s"
  then have "c \<in> set (rev s) \<or> d \<in> set (rev s)" by simp
  from main [OF this] show ?thesis
    by (simp add: rfind_def last_rev [symmetric] rev_filter [symmetric] del: last_rev)
qed

lemma with_decimal_comma:
  "with_decimal (CHR '','') s = replace_char (CHR '','') (CHR ''.'') (remove_char (CHR ''.'') s)"
proof -
  have "(\<lambda>c. c = CHR '','' \<or> (c \<noteq> CHR ''.'' \<and> c \<noteq> CHR '','')) = (\<lambda>c. c \<noteq> CHR ''.'')"
    by auto
  then show ?thesis
    by (simp add: with_decimal_def replace_char_def remove_char_def)
qed

lemma with_decimal_dot: "with_decimal (CHR ''.'') s = remove_char (CHR '','') s"
proof -
  have f: "(\<lambda>c. c = CHR ''.'' \<or> (c \<noteq> CHR ''.'' \<and> c \<noteq> CHR '','')) = (\<lambda>c. c \<noteq> CHR '','')"
    by auto
  have "map (\<lambda>c. if c = CHR ''.'' then CHR ''.'' else c) xs = xs" for xs
    by (induction xs) auto
  with f show ?thesis
    by (simp add: with_decimal_def remove_char_def)
qed

lemma remove_absent: "c \<notin> set s \<Longrightarrow> remove_char c s = s"
  by (induction s) (auto simp: remove_char_def)

lemma later_separator_cases:
  "CHR ''.'' \<in> set s \<Longrightarrow> later_separator s = CHR '','' \<or> later_separator s = CHR ''.''"
proof -
  assume "CHR ''.'' \<in> set s"
  then have ne: "filter (\<lambda>c. c = CHR ''.'' \<or> c = CHR '','') s \<noteq> []"
    by (auto simp: filter_empty_conv)
  from last_in_set [OF ne] show ?thesis
    by (auto simp: later_separator_def)
qed

lemma parse_text_refines: "parse_text s = numeric_normalizer s"
proof (cases "CHR ''.'' \<in> set s \<and> CHR '','' \<in> set s")
  case True
  then have both: "0 < count_list s (CHR '','')" "0 < count_list s (CHR ''.'')" "s \<noteq> []"
    by (auto simp: count_list_0_iff zero_less_iff_neq_zero)
  have r: "(rfind (CHR ''.'') s < rfind (CHR '','') s) = (later_separator s = CHR '','')"
    using True rfind_later [of "CHR '',''" "CHR ''.''" s]
    by (simp add: later_separator_def)
  show ?thesis
  proof (cases "later_separator s = CHR '',''")
    case c: True
    with both r True show ?thesis
      by (simp add: parse_text_def numeric_normalizer_def both_separators_def with_decimal_comma)
  next
    case False
    with later_separator_cases True have "later_separator s = CHR ''.''" by blast
    with both r True show ?thesis
      by (simp add: parse_text_def numeric_normalizer_def both_separators_def with_decimal_dot)
  qed
next
  case False
  show ?thesis
  proof (cases "CHR '','' \<in> set s")
    case c: True
    with False have nodot: "CHR ''.'' \<notin> set s" by simp
    from c have pos: "0 < count_list s (CHR '','')" "s \<noteq> []"
      by (auto simp: count_list_0_iff zero_less_iff_neq_zero)
    from nodot have z: "count_list s (CHR ''.'') = 0"
      by (simp add: count_list_0_iff)
    have wd: "with_decimal (CHR '','') s = replace_char (CHR '','') (CHR ''.'') s"
      using nodot by (simp add: with_decimal_comma remove_absent)
    have rm: "filter (\<lambda>c. c \<noteq> CHR '','') s = remove_char (CHR '','') s"
      by (simp add: remove_char_def)
    show ?thesis
    proof (cases "count_list s (CHR '','') = 1")
      case one: True
      then have len: "length (py_split (CHR '','') s) = 2"
        by (simp add: length_py_split)
      have frag: "py_split (CHR '','') s ! 1 = after_comma s"
        using py_split_second [OF one] by (simp add: after_comma_def)
      show ?thesis
        unfolding parse_text_def numeric_normalizer_def comma_only_def len frag wd rm
        using c nodot pos z one by simp
    next
      case more: False
      then have len: "length (py_split (CHR '','') s) \<noteq> 2"
        by (simp add: length_py_split)
      show ?thesis
        unfolding parse_text_def numeric_normalizer_def comma_only_def rm
        using c nodot pos z more len by simp
    qed
  next
    case nc: False
    then have z: "count_list s (CHR '','') = 0"
      by (simp add: count_list_0_iff)
    show ?thesis
      using nc z
      by (auto simp: parse_text_def numeric_normalizer_def count_list_0_iff zero_less_iff_neq_zero)
  qed
qed

section \<open>Properties of the header rule set\<close>

subsection \<open>The header checks one by one\<close>

text \<open>Each check gives at most one error, and the error carries the label of its field.\<close>

lemma filter_chk_exp_nombre:
  "filter (\<lambda>e. campo e = b) (chk_exp_nombre v) = (if b = [Txt ''Exportador - Nombre''] then chk_exp_nombre v else [])"
  by (simp add: chk_exp_nombre_def)

lemma filter_chk_exp_dir:
  "filter (\<lambda>e. campo e = b) (chk_exp_dir v) = (if b = [Txt (''Exportador - Direcci'' @ oacute @ ''n'')] then chk_exp_dir v else [])"
  by (simp add: chk_exp_dir_def)

lemma filter_chk_exp_id:
  "filter (\<lambda>e. campo e = b) (chk_exp_id v) = (if b = [Txt ''Exportador - NIT/ID''] then chk_exp_id v else [])"
  by (simp add: chk_exp_id_def)

lemma filter_chk_imp_nombre:
  "filter (\<lambda>e. campo e = b) (chk_imp_nombre v) = (if b = [Txt ''Importador - Nombre''] then chk_imp_nombre v else [])"
  by (simp add: chk_imp_nombre_def)

lemma filter_chk_imp_dir:
  "filter (\<lambda>e. campo e = b) (chk_imp_dir v) = (if b = [Txt (''Importador - Direcci'' @ oacute @ ''n'')] then chk_imp_dir v else [])"
  by (simp add: chk_imp_dir_def)

lemma filter_chk_imp_id:
  "filter (\<lambda>e. campo e = b) (chk_imp_id v) = (if b = [Txt ''Importador - NIT/ID''] then chk_imp_id v else [])"
  by (simp add: chk_imp_id_def)

lemma filter_chk_num_fact:
  "filter (\<lambda>e. campo e = b) (chk_num_fact v) = (if b = [Txt (''N'' @ uacute @ ''mero de Factura'')] then chk_num_fact v else [])"
  by (simp add: chk_num_fact_def)

lemma filter_chk_incoterm:
  "filter (\<lambda>e. campo e = b) (chk_incoterm v) = (if b = [Txt ''Incoterm''] then chk_incoterm v else [])"
  by (simp add: chk_incoterm_def)

lemma filter_chk_puerto_carga:
  "filter (\<lambda>e. campo e = b) (chk_puerto_carga v) = (if b = [Txt ''Puerto de Carga''] then chk_puerto_carga v else [])"
  by (simp add: chk_puerto_carga_def)

lemma filter_chk_puerto_desc:
  "filter (\<lambda>e. campo e = b) (chk_puerto_desc v) = (if b = [Txt ''Puerto de Descarga''] then chk_puerto_desc v else [])"
  by (simp add: chk_puerto_desc_def)

lemma filter_chk_origen:
  "filter (\<lambda>e. campo e = b) (chk_origen v) = (if b = [Txt (''Pa'' @ iacute @ ''s de Origen'')] then chk_origen v else [])"
  by (simp add: chk_origen_def)

lemma filter_chk_pago:
  "filter (\<lambda>e. campo e = b) (chk_pago v) = (if b = [Txt ''Condiciones de Pago''] then chk_pago v else [])"
  by (simp add: chk_pago_def)

lemma filter_chk_moneda:
  "filter (\<lambda>e. campo e = b) (chk_moneda v) = (if b = [Txt ''Moneda''] then chk_moneda v else [])"
  by (simp add: chk_moneda_def)

lemma filter_chk_valor_total:
  "filter (\<lambda>e. campo e = b) (chk_valor_total v) = (if b = [Txt ''Valor Total''] then chk_valor_total v else [])"
  by (simp add: chk_valor_total_def)

lemma filter_chk_fecha_fact:
  "chk_fecha_fact v = Inr es \<Longrightarrow>
     filter (\<lambda>e. campo e = b) es = (if b = [Txt ''Fecha de Factura''] then es else [])"
  by (auto simp: chk_fecha_fact_def split: if_splits sum.splits)

lemmas filter_chk =
  filter_chk_exp_nombre filter_chk_exp_dir filter_chk_exp_id filter_chk_imp_nombre
  filter_chk_imp_dir filter_chk_imp_id filter_chk_num_fact filter_chk_incoterm
  filter_chk_puerto_carga filter_chk_puerto_desc filter_chk_origen filter_chk_pago
  filter_chk_moneda filter_chk_valor_total

lemma length_chk_exp_nombre: "length (chk_exp_nombre v) \<le> Suc 0"
  by (simp add: chk_exp_nombre_def)

lemma length_chk_exp_dir: "length (chk_exp_dir v) \<le> Suc 0"
  by (simp add: chk_exp_dir_def)

lemma length_chk_exp_id: "length (chk_exp_id v) \<le> Suc 0"
  by (simp add: chk_exp_id_def)

lemma length_chk_imp_nombre: "length (chk_imp_nombre v) \<le> Suc 0"
  by (simp add: chk_imp_nombre_def)

lemma length_chk_imp_dir: "length (chk_imp_dir v) \<le> Suc 0"
  by (simp add: chk_imp_dir_def)

lemma length_chk_imp_id: "length (chk_imp_id v) \<le> Suc 0"
  by (simp add: chk_imp_id_def)

lemma length_chk_num_fact: "length (chk_num_fact v) \<le> Suc 0"
  by (simp add: chk_num_fact_def)

lemma length_chk_incoterm: "length (chk_incoterm v) \<le> Suc 0"
  by (simp add: chk_incoterm_def)

lemma length_chk_puerto_carga: "length (chk_puerto_carga v) \<le> Suc 0"
  by (simp add: chk_puerto_carga_def)

lemma length_chk_puerto_desc: "length (chk_puerto_desc v) \<le> Suc 0"
  by (simp add: chk_puerto_desc_def)

lemma length_chk_origen: "length (chk_origen v) \<le> Suc 0"
  by (simp add: chk_origen_def)

lemma length_chk_pago: "length (chk_pago v) \<le> Suc 0"
  by (simp add: chk_pago_def)

lemma length_chk_moneda: "length (chk_moneda v) \<le> Suc 0"
  by (simp add: chk_moneda_def)

lemma length_chk_valor_total: "length (chk_valor_total v) \<le> Suc 0"
  by (simp add: chk_valor_total_def)

lemma length_chk_fecha_fact: "chk_fecha_fact v = Inr es \<Longrightarrow> length es \<le> Suc 0"
  by (auto simp: chk_fecha_fact_def split: if_splits sum.splits)

lemmas length_chk =
  length_chk_exp_nombre length_chk_exp_dir length_chk_exp_id length_chk_imp_nombre
  length_chk_imp_dir length_chk_imp_id length_chk_num_fact length_chk_incoterm
  length_chk_puerto_carga length_chk_puerto_desc length_chk_origen length_chk_pago
  length_chk_moneda length_chk_valor_total

subsection \<open>The header rule set as a whole\<close>

lemma validar_campos_principales_JObj:
  "chk_fecha_fact (dget d ''InvoiceDate'') = Inr fe \<Longrightarrow>
   validar_campos_principales (JObj d) =
     Inr (chk_exp_nombre (dget d ''Supplier'')
        @ chk_exp_dir (dget d ''SupplierAddress'')
        @ chk_exp_id (dget d ''SupplierTaxID'')
        @ chk_imp_nombre (dget d ''Customer'')
        @ chk_imp_dir (dget d ''CustomerAddress'')
        @ chk_imp_id (dget d ''CustomerTaxID'')
        @ chk_num_fact (dget d ''InvoiceNumber'')
        @ fe
        @ chk_incoterm (dget d ''Incoterm'')
        @ chk_puerto_carga (dget d ''PortOfLoading'')
        @ chk_puerto_desc (dget d ''PortOfDischarge'')
        @ chk_origen (dget d ''CountryOfOrigin'')
        @ chk_pago (dget d ''PaymentTerms'')
        @ chk_moneda (dget d ''Currency'')
        @ chk_valor_total (dget d ''TotalInvoiceValue''))"
  by (simp add: validar_campos_principales_def)

lemma validar_campos_principales_Inr:
  assumes "validar_campos_principales campos = Inr es"
  obtains d fe where "campos = JObj d" and "chk_fecha_fact (dget d ''InvoiceDate'') = Inr fe"
proof -
  from assms obtain d where d: "campos = JObj d"
    by (cases campos) (simp_all add: validar_campos_principales_def)
  with assms obtain fe where "chk_fecha_fact (dget d ''InvoiceDate'') = Inr fe"
    by (cases "chk_fecha_fact (dget d ''InvoiceDate'')") (simp_all add: validar_campos_principales_def)
  with d that show thesis by blast
qed

lemma header_at_most_one:
  assumes "validar_campos_principales campos = Inr es"
  shows "list_all (\<lambda>kl. length (filter (\<lambda>e. campo e = [Txt (snd kl)]) es) \<le> 1) campos_requeridos"
proof -
  from assms obtain d fe where d: "campos = JObj d"
    and fe: "chk_fecha_fact (dget d ''InvoiceDate'') = Inr fe"
    by (rule validar_campos_principales_Inr)
  from assms have es: "es = chk_exp_nombre (dget d ''Supplier'')
        @ chk_exp_dir (dget d ''SupplierAddress'')
        @ chk_exp_id (dget d ''SupplierTaxID'')
        @ chk_imp_nombre (dget d ''Customer'')
        @ chk_imp_dir (dget d ''CustomerAddress'')
        @ chk_imp_id (dget d ''CustomerTaxID'')
        @ chk_num_fact (dget d ''InvoiceNumber'')
        @ fe
        @ chk_incoterm (dget d ''Incoterm'')
        @ chk_puerto_carga (dget d ''PortOfLoading'')
        @ chk_puerto_desc (dget d ''PortOfDischarge'')
        @ chk_origen (dget d ''CountryOfOrigin'')
        @ chk_pago (dget d ''PaymentTerms'')
        @ chk_moneda (dget d ''Currency'')
        @ chk_valor_total (dget d ''TotalInvoiceValue'')"
    unfolding d validar_campos_principales_JObj [OF fe] by simp
  show ?thesis
    unfolding es campos_requeridos_def
    by (simp add: filter_chk filter_chk_fecha_fact [OF fe] length_chk length_chk_fecha_fact [OF fe])
qed

lemma header_only_missing:
  assumes "kl \<in> set campos_requeridos" and "solo_falta (fst kl) d"
  shows "\<exists>e. validar_campos_principales (JObj d) = Inr [e] \<and> campo e = [Txt (snd kl)]"
proof -
  from assms(2) have vacio: "esta_vacio (dget d (fst kl))"
    and otros: "list_all (\<lambda>x. fst x = fst kl \<or> campo_valido (fst x) (dget d (fst x))) campos_requeridos"
    by (simp_all add: solo_falta_def)
  from assms(1) have "kl \<in> set campos_requeridos" .
  then show ?thesis
    using vacio otros unfolding campos_requeridos_def set_simps insert_iff empty_iff
    by (elim disjE FalseE)
      (simp_all add: campo_valido_def validar_campos_principales_def chk_fecha_fact_def
        chk_exp_nombre_def chk_exp_dir_def chk_exp_id_def chk_imp_nombre_def chk_imp_dir_def
        chk_imp_id_def chk_num_fact_def chk_incoterm_def chk_puerto_carga_def
        chk_puerto_desc_def chk_origen_def chk_pago_def chk_moneda_def chk_valor_total_def)
qed

section \<open>The sample invoice, evaluated\<close>

lemma ejemplo_numeros:
  "parse_numeric (JStr ''1'') = Some (Fin 1)"
  "parse_numeric (JStr ''2'') = Some (Fin 2)"
  "parse_numeric (JStr ''20'') = Some (Fin 20)"
  "parse_numeric (JStr ''12,5'') = Some (Fin (25 / 2))"
  "parse_numeric (JStr ''100.00'') = Some (Fin 100)"
  "parse_numeric (JStr ''200.00'') = Some (Fin 200)"
  "parse_numeric (JStr ''300.00'') = Some (Fin 300)"
  by (simp_all add: numeric_eval string_eval float_eval)

lemma ejemplo_cabecera: "validar_campos_principales (JObj cabecera_ejemplo) = Inr []"
  by (simp add: cabecera_ejemplo_def header_eval fecha_eval string_eval ejemplo_numeros)

lemma ejemplo_items:
  "items_loop (JStr ''USD'') (Suc 0) items_ejemplo estado_inicial =
     Inr \<lparr>qty_val = Some (Some (Fin 2)), price_val = Some (Some (Fin 100)),
          subtotal_val = Some (Some (Fin 200)), suma_items = Fin 300, errores_items = []\<rparr>"
  by (simp add: items_ejemplo_def items_eval esta_vacio_def dget_def string_eval
      ejemplo_numeros float_eval Let_def)


section \<open>The shape of a report\<close>

lemma validar_factura_Inr:
  assumes "validar_factura data = Inr r"
  obtains campos h xs st where
    "normalizar_campos data = Inr campos"
    "validar_campos_principales campos = Inr h"
    "py_iter (items_de data) = Inr xs"
    "items_loop (campo_de campos ''Currency'') 1 xs estado_inicial = Inr st"
    "r = informe_de (h @ errores_items st
           @ reconciliacion (suma_items st) (parse_numeric (campo_de campos ''TotalInvoiceValue'')))"
  using assms
  by (auto simp: validar_factura_def validar_items_def split: sum.splits)

lemma item_campos:
  "\<forall>e\<in>set (chk_desc idx v). length (campo e) = 3"
  "\<forall>e\<in>set (chk_qty idx v). length (campo e) = 3"
  "\<forall>e\<in>set (chk_unit idx v). length (campo e) = 3"
  "\<forall>e\<in>set (chk_price idx v). length (campo e) = 3"
  "\<forall>e\<in>set (chk_subtotal idx v). length (campo e) = 3"
  "\<forall>e\<in>set (chk_hs idx v). length (campo e) = 3"
  "\<forall>e\<in>set (chk_weight idx v). length (campo e) = 3"
  "\<forall>e\<in>set (chk_currency idx v m). length (campo e) = 3"
  by (simp_all add: chk_desc_def chk_qty_def chk_unit_def chk_price_def chk_subtotal_def
      chk_hs_def chk_weight_def chk_currency_def)

lemma chk_coherencia_campos: "\<forall>e\<in>set (chk_coherencia idx q p s st). length (campo e) = 3"
  by (auto simp: chk_coherencia_def Let_def split: option.splits if_splits)

lemma chk_packages_campos:
  "chk_packages idx v = Inr es \<Longrightarrow> \<forall>e\<in>set es. length (campo e) = 3"
  by (auto simp: chk_packages_def split: if_splits sum.splits)

lemma item_step_campos:
  assumes "item_step m idx item st = Inr st'"
    and "\<forall>e\<in>set (errores_items st). length (campo e) = 3"
  shows "\<forall>e\<in>set (errores_items st'). length (campo e) = 3"
proof -
  from assms(1) obtain it pe where pe: "chk_packages idx (dget it ''NumberOfPackagesBoxes'') = Inr pe"
    and st': "st' = item_cierre m idx it (errores_items st) pe (item_locals it st)"
    by (auto simp: item_step_def split: json.splits sum.splits)
  show ?thesis
    using assms(2) chk_packages_campos [OF pe] item_campos chk_coherencia_campos
    by (auto simp: st' item_cierre_def item_fields_def)
qed

lemma items_loop_campos:
  "items_loop m idx xs st = Inr st' \<Longrightarrow> \<forall>e\<in>set (errores_items st). length (campo e) = 3
     \<Longrightarrow> \<forall>e\<in>set (errores_items st'). length (campo e) = 3"
proof (induction xs arbitrary: idx st)
  case Nil
  then show ?case by simp
next
  case (Cons x xs)
  from Cons.prems(1) obtain st1 where s1: "item_step m idx x st = Inr st1"
    and rest: "items_loop m (Suc idx) xs st1 = Inr st'"
    by (auto split: sum.splits)
  from item_step_campos [OF s1 Cons.prems(2)] Cons.IH [OF rest] show ?case
    by blast
qed

lemma filter_items_reconciliacion:
  assumes "items_loop m 1 xs estado_inicial = Inr st"
  shows "filter (\<lambda>e. campo e = etiqueta_reconciliacion) (errores_items st) = []"
proof -
  have "\<forall>e\<in>set (errores_items st). length (campo e) = 3"
    using items_loop_campos [OF assms] by (simp add: estado_inicial_def)
  then show ?thesis
    by (auto simp: filter_empty_conv etiqueta_reconciliacion_def)
qed

lemma filter_header_reconciliacion:
  assumes "validar_campos_principales campos = Inr h"
  shows "filter (\<lambda>e. campo e = etiqueta_reconciliacion) h = []"
proof -
  from assms obtain d fe where d: "campos = JObj d"
    and fe: "chk_fecha_fact (dget d ''InvoiceDate'') = Inr fe"
    by (rule validar_campos_principales_Inr)
  from assms have "Inr h = validar_campos_principales (JObj d)"
    by (simp add: d)
  then show ?thesis
    unfolding validar_campos_principales_JObj [OF fe]
    by (simp add: filter_chk filter_chk_fecha_fact [OF fe] etiqueta_reconciliacion_def)
qed

lemma length_filter_reconciliacion:
  "length (filter (\<lambda>e. campo e = etiqueta_reconciliacion) (reconciliacion s t)) =
     (case t of None \<Rightarrow> 0
      | Some x \<Rightarrow> if fgt (fabs (fsub (fround2 s) x)) tolerancia then 1 else 0)"
  by (simp add: reconciliacion_def etiqueta_reconciliacion_def Let_def split: option.splits)


lemma ejemplo_factura:
  "validar_factura factura_ejemplo = Inr \<lparr>resultado = ''Cumple'', errores = []\<rparr>"
proof -
  have c: "dget cabecera_ejemplo ''Currency'' = JStr ''USD''"
    and t: "dget cabecera_ejemplo ''TotalInvoiceValue'' = JStr ''300.00''"
    by (simp_all add: cabecera_ejemplo_def dget_def)
  have r: "reconciliacion (Fin 300) (Some (Fin 300)) = []"
    by (simp add: reconciliacion_def float_eval)
  show ?thesis
    by (simp add: factura_ejemplo_def engine_eval validar_items_def py_iter_def
        ejemplo_cabecera ejemplo_items ejemplo_numeros c t r del: dget_def)
qed

section \<open>More about the sample invoice and the header\<close>

lemma ejemplo_cabecera_300_02:
  "validar_campos_principales (JObj ((''TotalInvoiceValue'', JStr ''300.02'') # cabecera_ejemplo)) = Inr []"
proof -
  have "parse_numeric (JStr ''300.02'') \<noteq> None"
    by (simp add: numeric_eval string_eval float_eval)
  then show ?thesis
    by (simp add: cabecera_ejemplo_def header_eval fecha_eval string_eval)
qed

lemma ejemplo_factura_300_02:
  "map_sum id (\<lambda>r. length (filter (\<lambda>e. campo e = etiqueta_reconciliacion) (errores r)))
     (validar_factura
        [(''Fields'', JObj ((''TotalInvoiceValue'', JStr ''300.02'') # cabecera_ejemplo)),
         (''Table'', JArr items_ejemplo)]) = Inr 1"
proof -
  have c: "dget ((''TotalInvoiceValue'', JStr ''300.02'') # cabecera_ejemplo) ''Currency'' = JStr ''USD''"
    and t: "dget ((''TotalInvoiceValue'', JStr ''300.02'') # cabecera_ejemplo) ''TotalInvoiceValue''
              = JStr ''300.02''"
    by (simp_all add: cabecera_ejemplo_def dget_def)
  have r: "length (filter (\<lambda>e. campo e = etiqueta_reconciliacion)
             (reconciliacion (Fin 300) (parse_numeric (JStr ''300.02'')))) = 1"
    unfolding length_filter_reconciliacion
    by (simp add: numeric_eval string_eval float_eval)
  show ?thesis
    by (simp add: engine_eval validar_items_def py_iter_def ejemplo_cabecera_300_02
        ejemplo_items c t r del: dget_def)
qed

lemma header_reads_required_fields:
  assumes "list_all (\<lambda>kl. dget d (fst kl) = dget d' (fst kl)) campos_requeridos"
  shows "validar_campos_principales (JObj d) = validar_campos_principales (JObj d')"
  using assms unfolding campos_requeridos_def validar_campos_principales_def
  by (simp cong: sum.case_cong)

lemma items_de_Fields: "items_de ((''Fields'', v) # data) = items_de data"
  by (simp add: items_de_def split: option.splits)

text \<open>A supplier that is a no-break space is empty: with an empty date beside it, the
  sample header has two errors.\<close>

lemma two_empty_fields_two_errors:
  "map_sum id (map campo)
     (validar_campos_principales
        (JObj ((''Supplier'', JStr nbsp) # (''InvoiceDate'', JStr '' '') # cabecera_ejemplo)))
   = Inr [[Txt ''Exportador - Nombre''], [Txt ''Fecha de Factura'']]"
  by (simp add: cabecera_ejemplo_def header_eval fecha_eval string_eval ejemplo_numeros
      esta_vacio_def dget_def)

section \<open>The item loop on small inputs\<close>

text \<open>A subtotal that differs by one cent from quantity times price is accepted, one that
  differs by two cents is not. A first item without a subtotal adds nothing to the sum,
  also when its quantity and price parse; with a subtotal that does not parse, their
  product is added.\<close>

lemma tolerance_boundary:
  "map_sum id (\<lambda>es. length (filter (\<lambda>e. campo e =
        [Txt (''Valor Total '' @ Iacute @ ''tem (Producto ''), Idx 1, Txt '')'']) es))
     (validar_items
        (JArr [JObj [(''Quantity'', JStr ''10''), (''UnitPrice'', JStr ''5.00''),
                     (''NetValuePerItem'', JStr ''50.01'')]]) JNull None) = Inr 0"
  "map_sum id (\<lambda>es. length (filter (\<lambda>e. campo e =
        [Txt (''Valor Total '' @ Iacute @ ''tem (Producto ''), Idx 1, Txt '')'']) es))
     (validar_items
        (JArr [JObj [(''Quantity'', JStr ''10''), (''UnitPrice'', JStr ''5.00''),
                     (''NetValuePerItem'', JStr ''50.02'')]]) JNull None) = Inr 1"
  by (simp_all add: items_eval esta_vacio_def dget_def numeric_eval string_eval float_eval Let_def)

lemma fallback_skipped_when_subtotal_unbound:
  "map_sum id suma_items
     (items_loop JNull 1 [JObj [(''Quantity'', JStr ''2''), (''UnitPrice'', JStr ''3'')]]
        estado_inicial) = Inr (Fin 0)"
  "map_sum id suma_items
     (items_loop JNull 1
        [JObj [(''Quantity'', JStr ''2''), (''UnitPrice'', JStr ''3''), (''NetValuePerItem'', JStr ''x'')]]
        estado_inicial) = Inr (Fin 6)"
  by (simp_all add: items_eval esta_vacio_def dget_def numeric_eval string_eval float_eval Let_def)

section \<open>The numeric normalizer on the specification's examples\<close>

text \<open>
  \<^verbatim>\<open>parse_numeric\<close> reads its argument as the specification's algorithm says:
  \<^verbatim>\<open>None\<close> has no value, and anything else is turned into text, trimmed and given to
  the six steps. The function has no error result: every \<^verbatim>\<open>float()\<close> that can raise
  is caught and gives no value. The examples of the specification come out as it says.
\<close>

lemma parse_numeric_disambiguation:
  "parse_numeric v = (if v = JNull then None else numeric_normalizer (py_strip (py_str v)))
   \<and> parse_numeric (JStr ''1.234,56'') = Some (to_double (123456 / 100))
   \<and> parse_numeric (JStr ''1,234.56'') = Some (to_double (123456 / 100))
   \<and> parse_numeric (JStr ''123,45'') = Some (to_double (12345 / 100))
   \<and> parse_numeric (JStr ''1,234,567'') = Some (Fin 1234567)
   \<and> parse_numeric (JStr ''12345.67'') = Some (to_double (1234567 / 100))
   \<and> parse_numeric (JStr ''abc'') = None
   \<and> parse_numeric (JStr '''') = None"
proof -
  have "parse_numeric v = (if v = JNull then None else numeric_normalizer (py_strip (py_str v)))"
    by (simp add: parse_numeric_def parse_text_refines)
  moreover have "parse_numeric (JStr ''1.234,56'') = Some (to_double (123456 / 100))"
    by (simp add: numeric_eval string_eval float_eval)
  moreover have "parse_numeric (JStr ''1,234.56'') = Some (to_double (123456 / 100))"
    by (simp add: numeric_eval string_eval float_eval)
  moreover have "parse_numeric (JStr ''123,45'') = Some (to_double (12345 / 100))"
    by (simp add: numeric_eval string_eval float_eval)
  moreover have "parse_numeric (JStr ''1,234,567'') = Some (Fin 1234567)"
    by (simp add: numeric_eval string_eval float_eval)
  moreover have "parse_numeric (JStr ''12345.67'') = Some (to_double (1234567 / 100))"
    by (simp add: numeric_eval string_eval float_eval)
  moreover have "parse_numeric (JStr ''abc'') = None"
    by (simp add: numeric_eval string_eval)
  moreover have "parse_numeric (JStr '''') = None"
    by (simp add: numeric_eval string_eval)
  ultimately show ?thesis by blast
qed

text \<open>
  What the steps give to \<^verbatim>\<open>float()\<close> is not always a numeral. In the branch for text
  with commas and no dot, \<^verbatim>\<open>,nan\<close> loses its comma and \<^verbatim>\<open>float("nan")\<close> is a float; so
  it is a total the header accepts, and as a number of packages it reaches
  \<^verbatim>\<open>int(packages_val)\<close>, which raises \<^verbatim>\<open>ValueError\<close> out of \<^verbatim>\<open>validar_factura\<close>.
\<close>

lemma nan_text_in_a_record:
  "chk_valor_total (JStr '',nan'') = []"
  "validar_factura [(''Items'', JArr [JObj [(''NumberOfPackagesBoxes'', JStr '',nan'')]])]
     = Inl ValueError"
  by (simp_all add: engine_eval items_eval header_eval fecha_eval numeric_eval string_eval
      float_eval esta_vacio_def dget_def)

section \<open>The statements of the specification, one by one\<close>

text \<open>
  C1 (defect in the code). Two items: the first has \<^verbatim>\<open>Quantity = "10"\<close>,
  \<^verbatim>\<open>UnitPrice = "5.00"\<close> and \<^verbatim>\<open>NetValuePerItem = "50.02"\<close>, the second has no field
  at all. The second item is reported twice under its subtotal label: once because the
  subtotal is missing, and once more because the first item's three values, still held by
  the loop's variables, do not agree.
\<close>

theorem stale_values_are_checked_again:
  "\<exists>es. validar_items
          (JArr [JObj [(''Quantity'', JStr ''10''), (''UnitPrice'', JStr ''5.00''),
                       (''NetValuePerItem'', JStr ''50.02'')],
                 JObj []])
          JNull None = Inr es \<and>
        map motivo
          (filter (\<lambda>e. campo e = [Txt (''Valor Total '' @ Iacute @ ''tem (Producto ''), Idx 2, Txt '')''])
             es) =
          [[Txt (''No se proporcion'' @ oacute @ '' el valor total (subtotal) para el '' @ iacute @ ''tem.'')],
           [Txt ''El valor total del producto '', Idx 2, Txt '' ('', Val JNull,
            Txt ('') no coincide con cantidad '' @ por @ '' precio unitario.'')]]"
  by (simp add: items_eval esta_vacio_def dget_def numeric_eval string_eval float_eval Let_def)

text \<open>
  C2 (defect in the code). Two items: the first has \<^verbatim>\<open>NetValuePerItem = "100"\<close>, the
  second has no field at all. The second item adds the first item's value once more: the
  running sum is 200, where each item's own contribution gives 100.
\<close>

theorem stale_subtotal_is_added_again:
  "map_sum id suma_items
     (items_loop JNull 1 [JObj [(''NetValuePerItem'', JStr ''100'')], JObj []] estado_inicial)
   = Inr (Fin 200)"
  by (simp add: items_eval esta_vacio_def dget_def numeric_eval string_eval float_eval Let_def)

text \<open>
  C3 (defect in the code). A record whose \<^verbatim>\<open>InvoiceDate\<close> is a number makes
  \<^verbatim>\<open>validar_factura\<close> raise \<^verbatim>\<open>AttributeError\<close>: the value is not empty, so
  \<^verbatim>\<open>es_fecha_valida\<close> is called and calls \<^verbatim>\<open>strip\<close> on it.
\<close>

theorem numeric_invoice_date_raises:
  "validar_factura [(''InvoiceDate'', JNum ''20240101'')] = Inl AttributeError"
  by (simp add: engine_eval header_eval fecha_eval)

text \<open>
  C4. In a result of the header rule set, no required field's label occurs on more than
  one error. When one required field is empty and every other one is present and valid,
  the result is a single error, and it carries the label of the empty field.
\<close>

theorem header_one_error_per_field:
  "(validar_campos_principales campos = Inr es \<longrightarrow>
      list_all (\<lambda>kl. length (filter (\<lambda>e. campo e = [Txt (snd kl)]) es) \<le> 1) campos_requeridos)
   \<and> ((k, l) \<in> set campos_requeridos \<and> solo_falta k d \<longrightarrow>
        (\<exists>e. validar_campos_principales (JObj d) = Inr [e] \<and> campo e = [Txt l]))"
  using header_at_most_one [of campos es] header_only_missing [of "(k, l)" d]
  by simp

theorem header_one_error_per_field_witness:
  "solo_falta ''Supplier'' ((''Supplier'', JStr nbsp) # cabecera_ejemplo)
   \<and> (\<exists>e. validar_campos_principales (JObj ((''Supplier'', JStr nbsp) # cabecera_ejemplo)) = Inr [e]
           \<and> campo e = [Txt ''Exportador - Nombre''])"
proof -
  have n: "parse_numeric (JStr ''300.00'') \<noteq> None"
    by (simp add: ejemplo_numeros)
  have s: "solo_falta ''Supplier'' ((''Supplier'', JStr nbsp) # cabecera_ejemplo)"
    using n
    by (simp add: solo_falta_def campos_requeridos_def campo_valido_def cabecera_ejemplo_def
        esta_vacio_def dget_def incoterms_validos_def currency_code_def fecha_eval string_eval)
  have m: "(''Supplier'', ''Exportador - Nombre'') \<in> set campos_requeridos"
    by (simp add: campos_requeridos_def)
  from header_one_error_per_field
         [of _ _ "''Supplier''" "''Exportador - Nombre''" "(''Supplier'', JStr nbsp) # cabecera_ejemplo"]
       s m
  show ?thesis by blast
qed

text \<open>
  C5 (defect in the code). \<^verbatim>\<open>parse_numeric(",nan")\<close> is the float NaN and
  \<^verbatim>\<open>parse_numeric(",inf")\<close> is the float infinity, although neither text is a number:
  the text has one comma with three characters after it, so the comma is removed as a
  thousands separator and \<^verbatim>\<open>float("nan")\<close>, \<^verbatim>\<open>float("inf")\<close> succeed. The branch
  for text without separators tests \<^verbatim>\<open>-?\d+\<close> before it calls \<^verbatim>\<open>float()\<close>, and
  gives no value for \<^verbatim>\<open>nan\<close> and \<^verbatim>\<open>inf\<close>; the branch for commas has no such test.
\<close>

theorem non_numeric_text_is_given_a_value:
  "parse_numeric (JStr '',nan'') = Some NaN
   \<and> parse_numeric (JStr '',inf'') = Some PInf
   \<and> parse_numeric (JStr ''nan'') = None
   \<and> parse_numeric (JStr ''inf'') = None"
  by (simp add: numeric_eval string_eval float_eval)

text \<open>
  C6. When \<^verbatim>\<open>validar_factura\<close> returns a report, the number of its errors labelled
  \<^verbatim>\<open>Valor Total vs Suma Items\<close> (with the accented capital I) is decided by the header
  total alone when that did not parse (none), and otherwise by the comparison of the
  rounded item sum with the parsed total (one if they differ by more than 0.01, none if
  not). The sample invoice, with items worth 100.00 and 200.00 and the total 300.00, has
  no such error; with the total 300.02 it has exactly one.
\<close>

theorem reconciliation_check:
  "(validar_factura data = Inr r \<longrightarrow>
      (\<exists>campos xs st.
         normalizar_campos data = Inr campos \<and>
         py_iter (items_de data) = Inr xs \<and>
         items_loop (campo_de campos ''Currency'') 1 xs estado_inicial = Inr st \<and>
         length (filter (\<lambda>e. campo e = etiqueta_reconciliacion) (errores r)) =
           (case parse_numeric (campo_de campos ''TotalInvoiceValue'') of
              None \<Rightarrow> 0
            | Some t \<Rightarrow> if fgt (fabs (fsub (fround2 (suma_items st)) t)) tolerancia then 1 else 0)))
   \<and> map_sum id (\<lambda>r. length (filter (\<lambda>e. campo e = etiqueta_reconciliacion) (errores r)))
         (validar_factura factura_ejemplo) = Inr 0
   \<and> map_sum id (\<lambda>r. length (filter (\<lambda>e. campo e = etiqueta_reconciliacion) (errores r)))
         (validar_factura
            [(''Fields'', JObj ((''TotalInvoiceValue'', JStr ''300.02'') # cabecera_ejemplo)),
             (''Table'', JArr items_ejemplo)]) = Inr 1"
proof -
  have general: "validar_factura data = Inr r \<longrightarrow>
      (\<exists>campos xs st.
         normalizar_campos data = Inr campos \<and>
         py_iter (items_de data) = Inr xs \<and>
         items_loop (campo_de campos ''Currency'') 1 xs estado_inicial = Inr st \<and>
         length (filter (\<lambda>e. campo e = etiqueta_reconciliacion) (errores r)) =
           (case parse_numeric (campo_de campos ''TotalInvoiceValue'') of
              None \<Rightarrow> 0
            | Some t \<Rightarrow> if fgt (fabs (fsub (fround2 (suma_items st)) t)) tolerancia then 1 else 0))"
  proof
    assume "validar_factura data = Inr r"
    then obtain campos h xs st where
      n: "normalizar_campos data = Inr campos" and
      h: "validar_campos_principales campos = Inr h" and
      xs: "py_iter (items_de data) = Inr xs" and
      st: "items_loop (campo_de campos ''Currency'') 1 xs estado_inicial = Inr st" and
      r: "r = informe_de (h @ errores_items st
             @ reconciliacion (suma_items st) (parse_numeric (campo_de campos ''TotalInvoiceValue'')))"
      by (rule validar_factura_Inr)
    have "length (filter (\<lambda>e. campo e = etiqueta_reconciliacion) (errores r)) =
           (case parse_numeric (campo_de campos ''TotalInvoiceValue'') of
              None \<Rightarrow> 0
            | Some t \<Rightarrow> if fgt (fabs (fsub (fround2 (suma_items st)) t)) tolerancia then 1 else 0)"
      unfolding r informe_de_def
      by (simp add: filter_header_reconciliacion [OF h] filter_items_reconciliacion [OF st]
          length_filter_reconciliacion)
    with n xs st show "\<exists>campos xs st.
         normalizar_campos data = Inr campos \<and>
         py_iter (items_de data) = Inr xs \<and>
         items_loop (campo_de campos ''Currency'') 1 xs estado_inicial = Inr st \<and>
         length (filter (\<lambda>e. campo e = etiqueta_reconciliacion) (errores r)) =
           (case parse_numeric (campo_de campos ''TotalInvoiceValue'') of
              None \<Rightarrow> 0
            | Some t \<Rightarrow> if fgt (fabs (fsub (fround2 (suma_items st)) t)) tolerancia then 1 else 0)"
      by blast
  qed
  have ok: "map_sum id (\<lambda>r. length (filter (\<lambda>e. campo e = etiqueta_reconciliacion) (errores r)))
         (validar_factura factura_ejemplo) = Inr 0"
    by (simp add: ejemplo_factura)
  from general ok ejemplo_factura_300_02 show ?thesis
    by blast
qed

theorem reconciliation_check_witness:
  "\<exists>r campos xs st.
      validar_factura factura_ejemplo = Inr r \<and>
      normalizar_campos factura_ejemplo = Inr campos \<and>
      py_iter (items_de factura_ejemplo) = Inr xs \<and>
      items_loop (campo_de campos ''Currency'') 1 xs estado_inicial = Inr st \<and>
      length (filter (\<lambda>e. campo e = etiqueta_reconciliacion) (errores r)) =
        (case parse_numeric (campo_de campos ''TotalInvoiceValue'') of
           None \<Rightarrow> 0
         | Some t \<Rightarrow> if fgt (fabs (fsub (fround2 (suma_items st)) t)) tolerancia then 1 else 0)"
  using reconciliation_check [of factura_ejemplo "\<lparr>resultado = ''Cumple'', errores = []\<rparr>"]
    ejemplo_factura
  by blast

text \<open>
  C7. When \<^verbatim>\<open>validar_factura\<close> returns a report, its status is \<^verbatim>\<open>Cumple\<close> exactly
  when its error list is empty, and the error list is the errors of the header rule set,
  followed by the errors collected item by item, followed by what the reconciliation
  check gives.
\<close>

theorem report_status_and_order:
  assumes "validar_factura data = Inr r"
  shows "(resultado r = ''Cumple'') = (errores r = []) \<and>
         (\<exists>campos h xs st.
            normalizar_campos data = Inr campos \<and>
            validar_campos_principales campos = Inr h \<and>
            py_iter (items_de data) = Inr xs \<and>
            items_loop (campo_de campos ''Currency'') 1 xs estado_inicial = Inr st \<and>
            errores r = h @ errores_items st
              @ reconciliacion (suma_items st) (parse_numeric (campo_de campos ''TotalInvoiceValue'')))"
proof -
  from assms obtain campos h xs st where
    n: "normalizar_campos data = Inr campos" and
    h: "validar_campos_principales campos = Inr h" and
    xs: "py_iter (items_de data) = Inr xs" and
    st: "items_loop (campo_de campos ''Currency'') 1 xs estado_inicial = Inr st" and
    r: "r = informe_de (h @ errores_items st
           @ reconciliacion (suma_items st) (parse_numeric (campo_de campos ''TotalInvoiceValue'')))"
    by (rule validar_factura_Inr)
  have "(resultado r = ''Cumple'') = (errores r = [])"
    unfolding r informe_de_def by simp
  moreover have "errores r = h @ errores_items st
           @ reconciliacion (suma_items st) (parse_numeric (campo_de campos ''TotalInvoiceValue''))"
    unfolding r informe_de_def by simp
  ultimately show ?thesis
    using n h xs st by blast
qed

theorem report_status_and_order_witness:
  "\<exists>r. validar_factura factura_ejemplo = Inr r \<and> resultado r = ''Cumple'' \<and> errores r = []"
  using report_status_and_order [OF ejemplo_factura] ejemplo_factura by simp

text \<open>
  C8 (defect in the code). The pair \<^verbatim>\<open>{"Field": "TotalInvoiceValue", "Value": 0}\<close> and
  the direct mapping \<^verbatim>\<open>{"TotalInvoiceValue": 0}\<close> are not validated alike: in the pair,
  the number 0 is false, so \<^verbatim>\<open>or\<close> passes it over and the field is stored as
  \<^verbatim>\<open>None\<close>. The pair form reports the total as missing, the direct form accepts it.
\<close>

theorem zero_value_is_lost_in_pair_form:
  "map_sum id (\<lambda>r. length (filter (\<lambda>e. campo e = [Txt ''Valor Total'']) (errores r)))
     (validar_factura
        [(''Fields'', JArr [JObj [(''Field'', JStr ''TotalInvoiceValue''), (''Value'', JNum ''0'')]])])
   = Inr 1 \<and>
   map_sum id (\<lambda>r. length (filter (\<lambda>e. campo e = [Txt ''Valor Total'']) (errores r)))
     (validar_factura [(''Fields'', JObj [(''TotalInvoiceValue'', JNum ''0'')])])
   = Inr 0"
  by (simp add: engine_eval items_eval header_eval fecha_eval numeric_eval string_eval float_eval)

text \<open>
  C9. When the header rule set returns and the \<^verbatim>\<open>Incoterm\<close> value is not empty, there is
  no error labelled \<^verbatim>\<open>Incoterm\<close> exactly when the value, as text, trimmed and in upper
  case, is one of the twelve codes; otherwise the one error says that the value is not
  recognized. \<^verbatim>\<open>fob\<close> is accepted, also with a no-break space after it, and \<^verbatim>\<open>XXX\<close>
  is not.
\<close>

theorem incoterm_whitelist:
  assumes "validar_campos_principales (JObj d) = Inr es"
    and "\<not> esta_vacio (dget d ''Incoterm'')"
  shows "(filter (\<lambda>e. campo e = [Txt ''Incoterm'']) es = [])
           = (py_upper (py_strip (py_str (dget d ''Incoterm''))) \<in>
                set (map code_points
                       [''EXW'', ''FCA'', ''FAS'', ''FOB'', ''CFR'', ''CIF'', ''CPT'', ''CIP'',
                        ''DAP'', ''DPU'', ''DDP'', ''DAT'']))
         \<and> map motivo (filter (\<lambda>e. campo e = [Txt ''Incoterm'']) es)
           = (if py_upper (py_strip (py_str (dget d ''Incoterm'')))
                   \<in> set (map code_points incoterms_validos) then []
              else [[Txt (''El Incoterm '' @ apos), Val (dget d ''Incoterm''),
                     Txt (apos @ '' no es reconocido.'')]])
         \<and> chk_incoterm (JStr ''fob'') = []
         \<and> chk_incoterm (JStr (''fob'' @ nbsp)) = []
         \<and> map motivo (chk_incoterm (JStr ''XXX''))
           = [[Txt (''El Incoterm '' @ apos), Val (JStr ''XXX''), Txt (apos @ '' no es reconocido.'')]]"
proof -
  from assms(1) obtain fe where fe: "chk_fecha_fact (dget d ''InvoiceDate'') = Inr fe"
    by (rule validar_campos_principales_Inr) simp
  from assms(1) have "Inr es = validar_campos_principales (JObj d)" by simp
  then have f: "filter (\<lambda>e. campo e = [Txt ''Incoterm'']) es = chk_incoterm (dget d ''Incoterm'')"
    unfolding validar_campos_principales_JObj [OF fe]
    by (simp add: filter_chk filter_chk_fecha_fact [OF fe])
  have a: "(chk_incoterm (dget d ''Incoterm'') = [])
             = (py_upper (py_strip (py_str (dget d ''Incoterm'')))
                  \<in> set (map code_points incoterms_validos))"
    using assms(2) by (simp add: chk_incoterm_def)
  have b: "map motivo (chk_incoterm (dget d ''Incoterm''))
           = (if py_upper (py_strip (py_str (dget d ''Incoterm'')))
                   \<in> set (map code_points incoterms_validos) then []
              else [[Txt (''El Incoterm '' @ apos), Val (dget d ''Incoterm''),
                     Txt (apos @ '' no es reconocido.'')]])"
    using assms(2) by (simp add: chk_incoterm_def)
  have c: "chk_incoterm (JStr ''fob'') = []"
    by (simp add: chk_incoterm_def incoterms_validos_def esta_vacio_def string_eval)
  have c': "chk_incoterm (JStr (''fob'' @ nbsp)) = []"
    by (simp add: chk_incoterm_def incoterms_validos_def esta_vacio_def string_eval)
  have e: "map motivo (chk_incoterm (JStr ''XXX''))
           = [[Txt (''El Incoterm '' @ apos), Val (JStr ''XXX''), Txt (apos @ '' no es reconocido.'')]]"
    by (simp add: chk_incoterm_def incoterms_validos_def esta_vacio_def string_eval)
  from a b show ?thesis
    unfolding f c c' e by (simp add: incoterms_validos_def)
qed

theorem incoterm_whitelist_witness:
  "\<exists>es. validar_campos_principales (JObj [(''Incoterm'', JStr ('' cif'' @ nbsp))]) = Inr es
        \<and> filter (\<lambda>e. campo e = [Txt ''Incoterm'']) es = []"
proof -
  obtain es
    where es: "validar_campos_principales (JObj [(''Incoterm'', JStr ('' cif'' @ nbsp))]) = Inr es"
    by (simp add: validar_campos_principales_def chk_fecha_fact_def esta_vacio_def dget_def)
  have ne: "\<not> esta_vacio (dget [(''Incoterm'', JStr ('' cif'' @ nbsp))] ''Incoterm'')"
    by (simp add: esta_vacio_def dget_def string_eval)
  have "py_upper (py_strip (py_str (dget [(''Incoterm'', JStr ('' cif'' @ nbsp))] ''Incoterm'')))
          = code_points ''CIF''"
    by (simp add: dget_def string_eval)
  with incoterm_whitelist [OF es ne] es show ?thesis
    by simp
qed

text \<open>
  C10. A record without a \<^verbatim>\<open>Fields\<close> key is its own header mapping, and it is validated
  as the record that wraps the same entries under \<^verbatim>\<open>Fields\<close>; a record whose
  \<^verbatim>\<open>Fields\<close> is a mapping has that mapping as its header. The header errors of the
  report are those of the header rule set on that mapping, and the header rule set reads
  nothing of it but the fifteen required fields.
\<close>

theorem header_of_a_record:
  "(map_of data ''Fields'' = None \<longrightarrow>
      normalizar_campos data = Inr (JObj data) \<and>
      validar_factura data = validar_factura ((''Fields'', JObj data) # data))
   \<and> (map_of data ''Fields'' = Some (JObj m) \<longrightarrow> normalizar_campos data = Inr (JObj m))
   \<and> (validar_factura data = Inr r \<and> normalizar_campos data = Inr campos \<longrightarrow>
        (\<exists>h resto. validar_campos_principales campos = Inr h \<and> errores r = h @ resto))
   \<and> (list_all (\<lambda>kl. dget d (fst kl) = dget d' (fst kl)) campos_requeridos \<longrightarrow>
        validar_campos_principales (JObj d) = validar_campos_principales (JObj d'))"
proof -
  have a: "map_of data ''Fields'' = None \<longrightarrow>
      normalizar_campos data = Inr (JObj data) \<and>
      validar_factura data = validar_factura ((''Fields'', JObj data) # data)"
    by (simp add: normalizar_campos_def validar_factura_def items_de_Fields cong: sum.case_cong)
  have b: "map_of data ''Fields'' = Some (JObj m) \<longrightarrow> normalizar_campos data = Inr (JObj m)"
    by (simp add: normalizar_campos_def)
  have c: "validar_factura data = Inr r \<and> normalizar_campos data = Inr campos \<longrightarrow>
        (\<exists>h resto. validar_campos_principales campos = Inr h \<and> errores r = h @ resto)"
  proof
    assume h: "validar_factura data = Inr r \<and> normalizar_campos data = Inr campos"
    then have "validar_factura data = Inr r" by simp
    then obtain campos' h' xs st where
      "normalizar_campos data = Inr campos'"
      "validar_campos_principales campos' = Inr h'"
      "py_iter (items_de data) = Inr xs"
      "items_loop (campo_de campos' ''Currency'') 1 xs estado_inicial = Inr st"
      "r = informe_de (h' @ errores_items st
           @ reconciliacion (suma_items st) (parse_numeric (campo_de campos' ''TotalInvoiceValue'')))"
      by (rule validar_factura_Inr)
    with h show "\<exists>h resto. validar_campos_principales campos = Inr h \<and> errores r = h @ resto"
      by (auto simp: informe_de_def)
  qed
  from a b c header_reads_required_fields show ?thesis
    by blast
qed

theorem header_of_a_record_witness:
  "map_of (cabecera_ejemplo @ [(''Table'', JArr items_ejemplo)]) ''Fields'' = None
   \<and> normalizar_campos (cabecera_ejemplo @ [(''Table'', JArr items_ejemplo)])
       = Inr (JObj (cabecera_ejemplo @ [(''Table'', JArr items_ejemplo)]))
   \<and> validar_factura (cabecera_ejemplo @ [(''Table'', JArr items_ejemplo)])
       = validar_factura ((''Fields'', JObj (cabecera_ejemplo @ [(''Table'', JArr items_ejemplo)]))
                           # cabecera_ejemplo @ [(''Table'', JArr items_ejemplo)])"
proof -
  have n: "map_of (cabecera_ejemplo @ [(''Table'', JArr items_ejemplo)]) ''Fields'' = None"
    by (simp add: cabecera_ejemplo_def)
  with header_of_a_record [of "cabecera_ejemplo @ [(''Table'', JArr items_ejemplo)]"]
  show ?thesis by blast
qed

end
